theory Spec2Isabelle
  imports Complex_Main
begin

section \<open>JavaScript values used by server.js\<close>

text \<open>
  Strings are byte lists. \<open>toLowerCase\<close> lowers the letters A to Z and leaves every other
  byte alone (JavaScript also lowers letters outside ASCII; the keywords and patterns
  compared below are ASCII).
\<close>

definition lowerChar :: "char \<Rightarrow> char" where
  "lowerChar c =
     (case map_of (zip ''ABCDEFGHIJKLMNOPQRSTUVWXYZ'' ''abcdefghijklmnopqrstuvwxyz'') c of
        None \<Rightarrow> c
      | Some l \<Rightarrow> l)"

definition toLowerCase :: "string \<Rightarrow> string" where
  "toLowerCase s = map lowerChar s"

definition startsWith :: "string \<Rightarrow> string \<Rightarrow> bool" where
  "startsWith s p = (take (length p) s = p)"

text \<open>\<open>s.includes(p)\<close>: \<open>p\<close> occurs in \<open>s\<close> as a contiguous substring.\<close>

fun str_includes :: "string \<Rightarrow> string \<Rightarrow> bool" where
  "str_includes [] p = (p = [])"
| "str_includes (c # cs) p = (if startsWith (c # cs) p then True else str_includes cs p)"

text \<open>
  A template literal prints a missing value as \<open>undefined\<close>; \<open>a || b\<close> on strings
  takes \<open>b\<close> when \<open>a\<close> is missing or empty.
\<close>

definition jsString :: "string option \<Rightarrow> string" where
  "jsString v = (case v of None \<Rightarrow> ''undefined'' | Some s \<Rightarrow> s)"

definition truthy :: "string option \<Rightarrow> bool" where
  "truthy v = (case v of None \<Rightarrow> False | Some s \<Rightarrow> s \<noteq> [])"

definition orElse :: "string option \<Rightarrow> string option \<Rightarrow> string option" where
  "orElse a b = (if truthy a then a else b)"

definition orDefault :: "string option \<Rightarrow> string \<Rightarrow> string" where
  "orDefault a d = (case a of None \<Rightarrow> d | Some s \<Rightarrow> if s = [] then d else s)"

section \<open>Paginated ledger queries: fetchAllRecords\<close>

text \<open>
  One call of \<open>qbApiCall\<close> either throws (\<open>Failed\<close>) or yields the records of
  \<open>result.QueryResponse?.[entityType] || []\<close>. The ledger is a function from the
  start position of a query to its outcome: within one run of the loop every start
  position is asked at most once.
\<close>

datatype 'r page = Failed | Records "'r list"

definition maxResults :: nat where
  "maxResults = 1000"

function fetchLoop :: "(nat \<Rightarrow> 'r page) \<Rightarrow> nat \<Rightarrow> 'r list \<Rightarrow> 'r list" where
  "fetchLoop api startPosition allRecords =
     (case api startPosition of
        Failed \<Rightarrow> allRecords
      | Records records \<Rightarrow>
          (let allRecords' = allRecords @ records;
               hasMore = \<not> length records < maxResults;
               startPosition' =
                 (if length records < maxResults then startPosition
                  else startPosition + maxResults);
               hasMore' = (if startPosition' > 10000 then False else hasMore)
           in if hasMore' then fetchLoop api startPosition' allRecords' else allRecords'))"
  by pat_completeness auto
termination
  by (relation "measure (\<lambda>(api, startPosition, allRecords). 10001 - startPosition)")
     (auto simp: maxResults_def split: if_splits)

declare fetchLoop.simps [simp del]

definition fetchAllRecords :: "(nat \<Rightarrow> 'r page) \<Rightarrow> 'r list" where
  "fetchAllRecords api = fetchLoop api 1 []"

text \<open>
  For stating what a fetch returns: the records a page carries (none for a failed
  query), and whether a page is full, so that the loop asks for the next one.
\<close>

definition recordsOf :: "'r page \<Rightarrow> 'r list" where
  "recordsOf pg = (case pg of Failed \<Rightarrow> [] | Records rs \<Rightarrow> rs)"

definition fullPage :: "'r page \<Rightarrow> bool" where
  "fullPage pg = (case pg of Failed \<Rightarrow> False | Records rs \<Rightarrow> maxResults \<le> length rs)"

section \<open>Learned rules and the category cache\<close>

text \<open>
  A rule as \<open>learned-rules.json\<close> stores it. \<open>confidence\<close> and \<open>timesUsed\<close> are
  \<open>None\<close> when the field is absent or null.
\<close>

record rule =
  rule_id :: string
  pattern :: string
  patternType :: string
  categoryId :: string
  categoryName :: string
  confidence :: "real option"
  timesUsed :: "int option"
  createdAt :: "string option"
  updatedAt :: "string option"

text \<open>What \<open>findMatchingRule\<close> returns for the rule that matched.\<close>

record ruleMatch =
  rm_categoryId :: string
  rm_categoryName :: string
  rm_confidence :: real
  rm_source :: string
  rm_ruleId :: string

text \<open>
  The object the classifier's reply is parsed into, with \<open>source: 'ai'\<close> added. The
  prompt asks for these four fields; each may be null or missing.
\<close>

record aiResult =
  ai_categoryId :: "string option"
  ai_categoryName :: "string option"
  ai_confidence :: "real option"
  ai_reasoning :: "string option"
  ai_source :: string

datatype suggestion = FromRule ruleMatch | FromAI aiResult

record account =
  acc_Id :: "string option"
  acc_Name :: "string option"
  acc_FullyQualifiedName :: "string option"
  acc_AccountType :: "string option"
  acc_AccountSubType :: "string option"
  acc_Active :: "bool option"

record category =
  cat_id :: "string option"
  cat_name :: "string option"
  cat_fullName :: "string option"
  cat_type :: "string option"
  cat_subType :: "string option"
  cat_active :: "bool option"

text \<open>The transaction a categorize request carries: what the handlers read of it.\<close>

record txnRequest =
  tr_id :: "string option"
  tr_description :: "string option"
  tr_vendor :: "string option"

text \<open>
  The outcome of one \<open>anthropic.messages.create\<close> call followed by the extraction of
  the JSON object: the call or \<open>JSON.parse\<close> throws, the text holds no object, or an
  object is parsed.
\<close>

datatype aiReply = AiThrows | AiNoJson | AiJson aiResult

text \<open>
  The server's state the handlers below read and write, and its collaborators:
  \<open>anthropic\<close> is the classifier client (\<open>None\<close> when no API key is configured),
  \<open>accountsApi\<close> the ledger's answer to the paginated Account query, \<open>rulesFile\<close>
  the rules as last written to disk, \<open>writeFails\<close> whether \<open>fs.writeFileSync\<close>
  throws.
\<close>

record server =
  access_token :: "string option"
  learnedRules :: "rule list"
  categories :: "category list"
  rulesFile :: "rule list option"

record world =
  anthropic :: "(txnRequest \<Rightarrow> category list \<Rightarrow> aiReply) option"
  accountsApi :: "nat \<Rightarrow> account page"
  writeFails :: bool

subsection \<open>findMatchingRule\<close>

definition searchTextOf :: "string option \<Rightarrow> string option \<Rightarrow> string" where
  "searchTextOf description vendorName =
     toLowerCase (jsString description @ '' '' @ jsString vendorName)"

definition ruleMatches :: "string \<Rightarrow> rule \<Rightarrow> bool" where
  "ruleMatches searchText r =
     (if patternType r = ''exact'' then searchText = toLowerCase (pattern r)
      else if patternType r = ''starts_with'' then startsWith searchText (toLowerCase (pattern r))
      else str_includes searchText (toLowerCase (pattern r)))"

text \<open>\<open>rule.confidence || 1.0\<close>: a missing, null or zero confidence reads as 1.\<close>

definition confidenceOr1 :: "real option \<Rightarrow> real" where
  "confidenceOr1 c = (case c of None \<Rightarrow> 1 | Some x \<Rightarrow> if x = 0 then 1 else x)"

definition matchOf :: "rule \<Rightarrow> ruleMatch" where
  "matchOf r =
     \<lparr> rm_categoryId = categoryId r,
       rm_categoryName = categoryName r,
       rm_confidence = confidenceOr1 (confidence r),
       rm_source = ''learned_rule'',
       rm_ruleId = rule_id r \<rparr>"

fun scanRules :: "string \<Rightarrow> rule list \<Rightarrow> ruleMatch option" where
  "scanRules searchText [] = None"
| "scanRules searchText (r # rest) =
     (if ruleMatches searchText r then Some (matchOf r) else scanRules searchText rest)"

definition findMatchingRule :: "rule list \<Rightarrow> string option \<Rightarrow> string option \<Rightarrow> ruleMatch option" where
  "findMatchingRule rules description vendorName =
     scanRules (searchTextOf description vendorName) rules"

subsection \<open>fetchAndCacheCategories and aiCategorize\<close>

definition expenseTypes :: "string list" where
  "expenseTypes = [''Expense'', ''Cost of Goods Sold'', ''Other Expense'', ''Other Current Liability'']"

definition isExpenseAccount :: "account \<Rightarrow> bool" where
  "isExpenseAccount a =
     (case acc_AccountType a of None \<Rightarrow> False | Some t \<Rightarrow> t \<in> set expenseTypes)"

definition categoryOf :: "account \<Rightarrow> category" where
  "categoryOf a =
     \<lparr> cat_id = acc_Id a,
       cat_name = acc_Name a,
       cat_fullName = orElse (acc_FullyQualifiedName a) (acc_Name a),
       cat_type = acc_AccountType a,
       cat_subType = acc_AccountSubType a,
       cat_active = acc_Active a \<rparr>"

definition fetchAndCacheCategories :: "world \<Rightarrow> category list" where
  "fetchAndCacheCategories w =
     map categoryOf (filter isExpenseAccount (fetchAllRecords (accountsApi w)))"

text \<open>
  \<open>aiCategorize\<close> returns the suggestion, if any, and how many times it called the
  classifier (0 or 1).
\<close>

definition aiCategorize :: "world \<Rightarrow> txnRequest \<Rightarrow> category list \<Rightarrow> aiResult option \<times> nat" where
  "aiCategorize w transaction cats =
     (case anthropic w of
        None \<Rightarrow> (None, 0)
      | Some client \<Rightarrow>
          (case client transaction cats of
             AiThrows \<Rightarrow> (None, 1)
           | AiNoJson \<Rightarrow> (None, 1)
           | AiJson result \<Rightarrow> (Some (result\<lparr>ai_source := ''ai''\<rparr>), 1)))"

subsection \<open>POST /api/quickbooks/categorize and categorize-batch\<close>

datatype 'a reply = Json 'a | Status nat string

record categorizeBody =
  cb_suggestion :: "suggestion option"
  cb_autoApproved :: bool

record batchItem =
  bi_transactionId :: "string option"
  bi_suggestion :: "suggestion option"
  bi_autoApproved :: bool

text \<open>\<open>aiResult || ruleMatch\<close>: a parsed object is always truthy.\<close>

definition aiOrRule :: "aiResult option \<Rightarrow> ruleMatch option \<Rightarrow> suggestion option" where
  "aiOrRule aiRes ruleRes =
     (case aiRes of
        Some a \<Rightarrow> Some (FromAI a)
      | None \<Rightarrow> map_option FromRule ruleRes)"

definition autoApprovable :: "ruleMatch option \<Rightarrow> bool" where
  "autoApprovable m = (case m of None \<Rightarrow> False | Some x \<Rightarrow> rm_confidence x \<ge> 0.95)"

text \<open>
  The handler's result: the reply, the state after it (the category cache may have been
  filled) and the number of classifier calls made.
\<close>

definition categorize :: "world \<Rightarrow> server \<Rightarrow> txnRequest \<Rightarrow> categorizeBody reply \<times> server \<times> nat" where
  "categorize w st transaction =
     (if \<not> truthy (access_token st) then (Status 401 ''Not authenticated'', st, 0)
      else
        let ruleRes = findMatchingRule (learnedRules st) (tr_description transaction) (tr_vendor transaction)
        in if autoApprovable ruleRes
           then (Json \<lparr> cb_suggestion = map_option FromRule ruleRes, cb_autoApproved = True \<rparr>, st, 0)
           else
             let st' = (if categories st = [] then st\<lparr>categories := fetchAndCacheCategories w\<rparr> else st);
                 (aiRes, calls) = aiCategorize w transaction (categories st')
             in (Json \<lparr> cb_suggestion = aiOrRule aiRes ruleRes, cb_autoApproved = False \<rparr>, st', calls))"

fun batchLoop :: "world \<Rightarrow> rule list \<Rightarrow> category list \<Rightarrow> txnRequest list \<Rightarrow> batchItem list \<times> nat" where
  "batchLoop w rules cats [] = ([], 0)"
| "batchLoop w rules cats (txn # rest) =
     (let ruleRes = findMatchingRule rules (tr_description txn) (tr_vendor txn)
      in if autoApprovable ruleRes
         then (let (results, calls) = batchLoop w rules cats rest
               in (\<lparr> bi_transactionId = tr_id txn,
                      bi_suggestion = map_option FromRule ruleRes,
                      bi_autoApproved = True \<rparr> # results, calls))
         else (let (aiRes, n) = aiCategorize w txn cats;
                   (results, calls) = batchLoop w rules cats rest
               in (\<lparr> bi_transactionId = tr_id txn,
                      bi_suggestion = aiOrRule aiRes ruleRes,
                      bi_autoApproved = False \<rparr> # results, n + calls)))"

definition categorizeBatch :: "world \<Rightarrow> server \<Rightarrow> txnRequest list \<Rightarrow> batchItem list reply \<times> server \<times> nat" where
  "categorizeBatch w st transactions =
     (if \<not> truthy (access_token st) then (Status 401 ''Not authenticated'', st, 0)
      else
        let st' = (if categories st = [] then st\<lparr>categories := fetchAndCacheCategories w\<rparr> else st);
            (results, calls) = batchLoop w (learnedRules st') (categories st') transactions
        in (Json results, st', calls))"

subsection \<open>saveRules, POST /api/quickbooks/learn-rule, DELETE /api/quickbooks/rules/:id\<close>

text \<open>
  \<open>saveRules\<close> writes the rules to disk inside a try block whose catch only logs: when
  the write throws, the file keeps its old content and the caller is not told.
\<close>

definition saveRules :: "world \<Rightarrow> server \<Rightarrow> server" where
  "saveRules w st =
     (if writeFails w then st else st\<lparr>rulesFile := Some (learnedRules st)\<rparr>)"

record learnBody =
  lb_pattern :: string
  lb_categoryId :: string
  lb_categoryName :: string
  lb_patternType :: "string option"

text \<open>The clock readings a request uses: \<open>Date.now()\<close> printed, and the ISO time.\<close>

record clock =
  nowMillis :: string
  nowIso :: string

record learnReply =
  lr_success :: bool
  lr_rulesCount :: nat

fun findIndex :: "('a \<Rightarrow> bool) \<Rightarrow> 'a list \<Rightarrow> nat option" where
  "findIndex p [] = None"
| "findIndex p (x # xs) =
     (if p x then Some 0 else map_option Suc (findIndex p xs))"

definition sameRule :: "string \<Rightarrow> string \<Rightarrow> rule \<Rightarrow> bool" where
  "sameRule pat ptype r =
     (toLowerCase (pattern r) = toLowerCase pat \<and> patternType r = ptype)"

text \<open>\<open>(timesUsed || 1) + 1\<close>\<close>

definition bumpTimesUsed :: "int option \<Rightarrow> int" where
  "bumpTimesUsed t = (case t of None \<Rightarrow> 1 | Some n \<Rightarrow> if n = 0 then 1 else n) + 1"

definition updateExisting :: "clock \<Rightarrow> learnBody \<Rightarrow> rule \<Rightarrow> rule" where
  "updateExisting clk body r =
     r\<lparr> categoryId := lb_categoryId body,
        categoryName := lb_categoryName body,
        timesUsed := Some (bumpTimesUsed (timesUsed r)),
        updatedAt := Some (nowIso clk) \<rparr>"

definition newRule :: "clock \<Rightarrow> learnBody \<Rightarrow> string \<Rightarrow> rule" where
  "newRule clk body ptype =
     \<lparr> rule_id = ''rule-'' @ nowMillis clk,
       pattern = lb_pattern body,
       patternType = ptype,
       categoryId = lb_categoryId body,
       categoryName = lb_categoryName body,
       confidence = Some 1,
       timesUsed = Some 1,
       createdAt = Some (nowIso clk),
       updatedAt = None \<rparr>"

text \<open>The destructuring default \<open>patternType = 'contains'\<close>.\<close>

definition effectiveType :: "learnBody \<Rightarrow> string" where
  "effectiveType body = (case lb_patternType body of None \<Rightarrow> ''contains'' | Some t \<Rightarrow> t)"

definition teach :: "clock \<Rightarrow> learnBody \<Rightarrow> rule list \<Rightarrow> rule list" where
  "teach clk body rules =
     (let ptype = effectiveType body
      in case findIndex (sameRule (lb_pattern body) ptype) rules of
           Some existingIndex \<Rightarrow>
             rules[existingIndex := updateExisting clk body (rules ! existingIndex)]
         | None \<Rightarrow> rules @ [newRule clk body ptype])"

definition learnRule :: "world \<Rightarrow> clock \<Rightarrow> server \<Rightarrow> learnBody \<Rightarrow> learnReply reply \<times> server" where
  "learnRule w clk st body =
     (let st' = saveRules w (st\<lparr>learnedRules := teach clk body (learnedRules st)\<rparr>)
      in (Json \<lparr> lr_success = True, lr_rulesCount = length (learnedRules st') \<rparr>, st'))"

definition deleteRule :: "world \<Rightarrow> server \<Rightarrow> string \<Rightarrow> bool reply \<times> server" where
  "deleteRule w st ident =
     (let st' = saveRules w (st\<lparr>learnedRules := filter (\<lambda>r. rule_id r \<noteq> ident) (learnedRules st)\<rparr>)
      in (Json True, st'))"

text \<open>
  The uniqueness invariant of the rule store, as the data model words it: at most one
  rule per (lower-cased pattern, pattern type) pair.
\<close>

definition ruleKey :: "rule \<Rightarrow> string \<times> string" where
  "ruleKey r = (toLowerCase (pattern r), patternType r)"

definition uniqueRules :: "rule list \<Rightarrow> bool" where
  "uniqueRules rules = distinct (map ruleKey rules)"

section \<open>The ledger normalizer: fetchFinancialData\<close>

subsection \<open>Ledger records\<close>

text \<open>
  QuickBooks records as the code reads them. A field is \<open>None\<close> when it is missing or
  null. An amount is a number or missing; an emitted amount of \<open>None\<close> stands for NaN
  (the arithmetic applied to a missing amount), which no comparison holds for.
\<close>

record ref =
  ref_value :: "string option"
  ref_name :: "string option"

record accountDetail =
  ad_AccountRef :: "ref option"

record itemDetail =
  id_ItemRef :: "ref option"

record journalDetail =
  jd_AccountRef :: "ref option"
  jd_PostingType :: "string option"

record lineItem =
  li_Description :: "string option"
  li_Amount :: "real option"
  li_AccountBasedExpenseLineDetail :: "accountDetail option"
  li_ItemBasedExpenseLineDetail :: "itemDetail option"
  li_JournalEntryLineDetail :: "journalDetail option"

record entity =
  en_Id :: "string option"
  en_TxnDate :: "string option"
  en_EntityRef :: "ref option"
  en_VendorRef :: "ref option"
  en_PrivateNote :: "string option"
  en_DocNumber :: "string option"
  en_PaymentType :: "string option"
  en_TotalAmt :: "real option"
  en_Line :: "lineItem list option"

record vendor =
  v_Id :: "string option"
  v_DisplayName :: "string option"
  v_CompanyName :: "string option"

record accountInfo =
  am_name :: "string option"
  am_type :: "string option"
  am_subType :: "string option"
  am_fullName :: "string option"

record txn =
  t_id :: string
  t_qbId :: "string option"
  t_qbType :: string
  t_date :: "string option"
  t_description :: string
  t_vendor :: string
  t_category :: string
  t_categoryId :: "string option"
  t_amount :: "real option"
  t_type :: string
  t_paymentType :: "string option"
  t_source :: string
  t_isPayroll :: "bool option"
  t_needsReview :: bool

subsection \<open>Lookup maps and small helpers\<close>

text \<open>A JavaScript object used as a map: a missing key is looked up as \<open>undefined\<close>.\<close>

definition buildVendorMap :: "vendor list \<Rightarrow> (string \<rightharpoonup> string)" where
  "buildVendorMap vendorRecords =
     fold (\<lambda>v m. m(jsString (v_Id v) \<mapsto>
                  orDefault (orElse (v_DisplayName v) (v_CompanyName v)) ''Unknown Vendor''))
       vendorRecords Map.empty"

definition buildAccountMap :: "account list \<Rightarrow> (string \<rightharpoonup> accountInfo)" where
  "buildAccountMap accountRecords =
     fold (\<lambda>a m. m(jsString (acc_Id a) \<mapsto>
                  \<lparr> am_name = acc_Name a, am_type = acc_AccountType a,
                    am_subType = acc_AccountSubType a,
                    am_fullName = orElse (acc_FullyQualifiedName a) (acc_Name a) \<rparr>))
       accountRecords Map.empty"

definition refValue :: "ref option \<Rightarrow> string option" where
  "refValue r = Option.bind r ref_value"

definition refName :: "ref option \<Rightarrow> string option" where
  "refName r = Option.bind r ref_name"

text \<open>\<open>a || b || ... || d\<close> on strings: the first non-empty one, else the last.\<close>

fun firstNonEmpty :: "string list \<Rightarrow> string \<Rightarrow> string" where
  "firstNonEmpty [] d = d"
| "firstNonEmpty (s # ss) d = (if s \<noteq> [] then s else firstNonEmpty ss d)"

fun showDigits :: "nat \<Rightarrow> string" where
  "showDigits n =
     (if n < 10 then [''0123456789'' ! n]
      else showDigits (n div 10) @ [''0123456789'' ! (n mod 10)])"

declare showDigits.simps [simp del]

definition negAbs :: "real option \<Rightarrow> real option" where
  "negAbs a = map_option (\<lambda>x. - \<bar>x\<bar>) a"

definition linesOf :: "entity \<Rightarrow> lineItem list" where
  "linesOf e = (case en_Line e of None \<Rightarrow> [] | Some ls \<Rightarrow> ls)"

definition uncategorizedKeywords :: "string list" where
  "uncategorizedKeywords = [''uncategorized'', ''ask my accountant'', ''undeposited'']"

definition isUncategorized :: "string \<Rightarrow> bool" where
  "isUncategorized cname =
     (if cname = [] then True
      else list_ex (\<lambda>kw. str_includes (toLowerCase cname) kw) uncategorizedKeywords)"

subsection \<open>Purchases and bills\<close>

record lineDetail =
  ld_description :: string
  ld_category :: string
  ld_categoryId :: "string option"
  ld_amount :: "real option"

definition purchaseLine :: "(string \<rightharpoonup> accountInfo) \<Rightarrow> lineItem \<Rightarrow> lineDetail option" where
  "purchaseLine accountMap line =
     (case li_AccountBasedExpenseLineDetail line of
        Some d \<Rightarrow>
          (let acctId = refValue (ad_AccountRef d);
               acctName = orDefault (orElse (refName (ad_AccountRef d))
                             (Option.bind (accountMap (jsString acctId)) am_name)) []
           in Some \<lparr> ld_description = orDefault (li_Description line) acctName,
                     ld_category = acctName,
                     ld_categoryId = acctId,
                     ld_amount = li_Amount line \<rparr>)
      | None \<Rightarrow>
          (case li_ItemBasedExpenseLineDetail line of
             Some d \<Rightarrow>
               Some \<lparr> ld_description = orDefault (orElse (li_Description line) (refName (id_ItemRef d))) [],
                      ld_category = ''Items'',
                      ld_categoryId = None,
                      ld_amount = li_Amount line \<rparr>
           | None \<Rightarrow> None))"

definition purchaseTxn :: "entity \<Rightarrow> string \<Rightarrow> string \<Rightarrow> string \<Rightarrow> nat \<times> lineDetail \<Rightarrow> txn" where
  "purchaseTxn p vendorName memo paymentType il =
     (case il of (idx, line) \<Rightarrow>
        \<lparr> t_id = ''purchase-'' @ jsString (en_Id p) @ ''-'' @ showDigits idx,
          t_qbId = en_Id p,
          t_qbType = ''Purchase'',
          t_date = en_TxnDate p,
          t_description = firstNonEmpty [ld_description line, vendorName, memo] ''Purchase'',
          t_vendor = vendorName,
          t_category = firstNonEmpty [ld_category line] ''Uncategorized'',
          t_categoryId = ld_categoryId line,
          t_amount = negAbs (ld_amount line),
          t_type = ''expense'',
          t_paymentType = Some paymentType,
          t_source = ''Purchase'',
          t_isPayroll = None,
          t_needsReview = isUncategorized (ld_category line) \<rparr>)"

definition processPurchase :: "(string \<rightharpoonup> string) \<Rightarrow> (string \<rightharpoonup> accountInfo) \<Rightarrow> entity \<Rightarrow> txn list" where
  "processPurchase vendorMap accountMap p =
     (let vendorName = orDefault (orElse (refName (en_EntityRef p))
                          (vendorMap (jsString (refValue (en_EntityRef p))))) [];
          memo = orDefault (en_PrivateNote p) [];
          paymentType = orDefault (en_PaymentType p) ''Unknown'';
          lineDetails = List.map_filter (purchaseLine accountMap) (linesOf p)
      in if length lineDetails > 0
         then map (purchaseTxn p vendorName memo paymentType) (enumerate 0 lineDetails)
         else [\<lparr> t_id = ''purchase-'' @ jsString (en_Id p),
                 t_qbId = en_Id p,
                 t_qbType = ''Purchase'',
                 t_date = en_TxnDate p,
                 t_description = firstNonEmpty [vendorName, memo] ''Purchase'',
                 t_vendor = vendorName,
                 t_category = ''Uncategorized'',
                 t_categoryId = None,
                 t_amount = negAbs (en_TotalAmt p),
                 t_type = ''expense'',
                 t_paymentType = Some paymentType,
                 t_source = ''Purchase'',
                 t_isPayroll = None,
                 t_needsReview = True \<rparr>])"

definition billLine :: "lineItem \<Rightarrow> lineDetail option" where
  "billLine line =
     (case li_AccountBasedExpenseLineDetail line of
        Some d \<Rightarrow>
          (let acctId = refValue (ad_AccountRef d);
               acctName = orDefault (refName (ad_AccountRef d)) []
           in Some \<lparr> ld_description = orDefault (li_Description line) acctName,
                     ld_category = acctName,
                     ld_categoryId = acctId,
                     ld_amount = li_Amount line \<rparr>)
      | None \<Rightarrow> None)"

definition billTxn :: "entity \<Rightarrow> string \<Rightarrow> string \<Rightarrow> nat \<times> lineDetail \<Rightarrow> txn" where
  "billTxn b vendorName memo il =
     (case il of (idx, line) \<Rightarrow>
        \<lparr> t_id = ''bill-'' @ jsString (en_Id b) @ ''-'' @ showDigits idx,
          t_qbId = en_Id b,
          t_qbType = ''Bill'',
          t_date = en_TxnDate b,
          t_description = firstNonEmpty [ld_description line, vendorName, memo] ''Bill'',
          t_vendor = vendorName,
          t_category = firstNonEmpty [ld_category line] ''Uncategorized'',
          t_categoryId = ld_categoryId line,
          t_amount = negAbs (ld_amount line),
          t_type = ''expense'',
          t_paymentType = None,
          t_source = ''Bill'',
          t_isPayroll = None,
          t_needsReview = isUncategorized (ld_category line) \<rparr>)"

definition processBill :: "(string \<rightharpoonup> string) \<Rightarrow> entity \<Rightarrow> txn list" where
  "processBill vendorMap b =
     (let vendorName = orDefault (orElse (refName (en_VendorRef b))
                          (vendorMap (jsString (refValue (en_VendorRef b))))) [];
          memo = orDefault (en_PrivateNote b) [];
          lineDetails = List.map_filter billLine (linesOf b)
      in if length lineDetails > 0
         then map (billTxn b vendorName memo) (enumerate 0 lineDetails)
         else [])"

subsection \<open>Journal entries\<close>

definition expenseLike :: "string list" where
  "expenseLike = [''Expense'', ''Cost of Goods Sold'', ''Other Expense'']"

definition incomeLike :: "string list" where
  "incomeLike = [''Income'', ''Other Income'']"

definition balanceSheetTypes :: "string list" where
  "balanceSheetTypes =
     [''Other Current Liability'', ''Long Term Liability'', ''Bank'', ''Other Current Asset'',
      ''Fixed Asset'']"

text \<open>
  The kind and signed amount of a journal line with a non-zero amount, or \<open>None\<close> where
  the callback returns without emitting.
\<close>

definition journalKind :: "string \<Rightarrow> string option \<Rightarrow> real \<Rightarrow> (string \<times> real) option" where
  "journalKind acctType postingType amount =
     (if acctType \<in> set expenseLike then
        (if postingType = Some ''Debit'' then Some (''expense'', - \<bar>amount\<bar>)
         else Some (''expense'', \<bar>amount\<bar>))
      else if acctType \<in> set incomeLike then
        (if postingType = Some ''Credit'' then Some (''income'', \<bar>amount\<bar>)
         else Some (''income'', - \<bar>amount\<bar>))
      else if acctType \<in> set balanceSheetTypes then None
      else
        (if postingType = Some ''Debit'' then Some (''expense'', - \<bar>amount\<bar>)
         else None))"

definition journalMemo :: "entity \<Rightarrow> string" where
  "journalMemo je = orDefault (orElse (en_PrivateNote je) (en_DocNumber je)) []"

definition journalAcctName :: "(string \<rightharpoonup> accountInfo) \<Rightarrow> journalDetail \<Rightarrow> string" where
  "journalAcctName accountMap d =
     orDefault (orElse (refName (jd_AccountRef d))
        (Option.bind (accountMap (jsString (refValue (jd_AccountRef d)))) am_name)) ''Journal Entry''"

definition journalAcctType :: "(string \<rightharpoonup> accountInfo) \<Rightarrow> journalDetail \<Rightarrow> string" where
  "journalAcctType accountMap d =
     orDefault (Option.bind (accountMap (jsString (refValue (jd_AccountRef d)))) am_type) []"

definition journalIsPayroll :: "string \<Rightarrow> string \<Rightarrow> bool" where
  "journalIsPayroll acctName memo =
     (str_includes (toLowerCase acctName) ''payroll'' \<or>
      str_includes (toLowerCase acctName) ''wage'' \<or>
      str_includes (toLowerCase acctName) ''salary'' \<or>
      str_includes (toLowerCase acctName) ''paychex'' \<or>
      str_includes (toLowerCase memo) ''payroll'' \<or>
      str_includes (toLowerCase memo) ''paychex'')"

text \<open>The body of the per-line callback: the transaction pushed, if any.\<close>

definition journalLine :: "(string \<rightharpoonup> accountInfo) \<Rightarrow> entity \<Rightarrow> nat \<times> lineItem \<Rightarrow> txn option" where
  "journalLine accountMap je il =
     (case il of (idx, line) \<Rightarrow>
        (case li_JournalEntryLineDetail line of
           None \<Rightarrow> None
         | Some d \<Rightarrow>
             (let memo = journalMemo je;
                  acctName = journalAcctName accountMap d;
                  acctType = journalAcctType accountMap d;
                  postingType = jd_PostingType d;
                  amount = (case li_Amount line of None \<Rightarrow> 0 | Some a \<Rightarrow> a)
              in if amount = 0 then None
                 else
                   (case journalKind acctType postingType amount of
                      None \<Rightarrow> None
                    | Some (txnType, txnAmount) \<Rightarrow>
                        (let isPayroll = journalIsPayroll acctName memo
                         in Some
                           \<lparr> t_id = ''journal-'' @ jsString (en_Id je) @ ''-'' @ showDigits idx,
                             t_qbId = en_Id je,
                             t_qbType = ''JournalEntry'',
                             t_date = en_TxnDate je,
                             t_description =
                               firstNonEmpty [orDefault (li_Description line) [], memo] acctName,
                             t_vendor = [],
                             t_category = (if isPayroll then ''Payroll Expenses'' else acctName),
                             t_categoryId = None,
                             t_amount = Some txnAmount,
                             t_type = txnType,
                             t_paymentType = None,
                             t_source = ''JournalEntry'',
                             t_isPayroll = Some isPayroll,
                             t_needsReview = False \<rparr>)))))"

definition processJournalEntry :: "(string \<rightharpoonup> accountInfo) \<Rightarrow> entity \<Rightarrow> txn list" where
  "processJournalEntry accountMap je =
     List.map_filter (journalLine accountMap je) (enumerate 0 (linesOf je))"

subsection \<open>The fetch phase and the debug summary\<close>

text \<open>
  The ledger as one run of \<open>fetchFinancialData\<close> meets it: whether the profit-and-loss
  report call throws, and the answer to each paginated query by entity type and start
  position.
\<close>

record ledger =
  reportFails :: bool
  entityApi :: "string \<Rightarrow> nat \<Rightarrow> entity page"
  accountApi :: "nat \<Rightarrow> account page"
  vendorApi :: "nat \<Rightarrow> vendor page"

record debugInfo =
  purchase_count :: nat
  bill_count :: nat
  journal_entry_count :: nat
  salesreceipt_count :: nat
  payment_count :: nat
  deposit_count :: nat
  refund_count :: nat
  vendor_credit_count :: nat
  needs_review_count :: nat

text \<open>
  What the model keeps of the result: the transactions pushed for purchases, bills and
  journal entries, in the order pushed, the needs-review list (only purchases and bills
  add to it), and the count fields of \<open>debug\<close>. The income processors, the date sort
  and the totals are left out; none of the kept parts depends on them.
\<close>

record financialData =
  fd_expenseTransactions :: "txn list"
  fd_needsReview :: "txn list"
  fd_debug :: debugInfo

definition fetchFinancialData :: "ledger \<Rightarrow> string + financialData" where
  "fetchFinancialData lg =
     (if reportFails lg then Inl ''QuickBooks API error''
      else
        let purchaseRecords = fetchAllRecords (entityApi lg ''Purchase'');
            billRecords = fetchAllRecords (entityApi lg ''Bill'');
            journalEntryRecords = fetchAllRecords (entityApi lg ''JournalEntry'');
            vendorCreditRecords = fetchAllRecords (entityApi lg ''VendorCredit'');
            salesReceiptRecords = fetchAllRecords (entityApi lg ''SalesReceipt'');
            paymentRecords = fetchAllRecords (entityApi lg ''Payment'');
            depositRecords = fetchAllRecords (entityApi lg ''Deposit'');
            refundReceiptRecords = fetchAllRecords (entityApi lg ''RefundReceipt'');
            accountRecords = fetchAllRecords (accountApi lg);
            vendorRecords = fetchAllRecords (vendorApi lg);
            vendorMap = buildVendorMap vendorRecords;
            accountMap = buildAccountMap accountRecords;
            transactions =
              concat (map (processPurchase vendorMap accountMap) purchaseRecords) @
              concat (map (processBill vendorMap) billRecords) @
              concat (map (processJournalEntry accountMap) journalEntryRecords);
            needsReview = filter t_needsReview transactions
        in Inr \<lparr> fd_expenseTransactions = transactions,
                 fd_needsReview = needsReview,
                 fd_debug =
                   \<lparr> purchase_count = length purchaseRecords,
                     bill_count = length billRecords,
                     journal_entry_count = length journalEntryRecords,
                     salesreceipt_count = length salesReceiptRecords,
                     payment_count = length paymentRecords,
                     deposit_count = length depositRecords,
                     refund_count = length refundReceiptRecords,
                     vendor_credit_count = length vendorCreditRecords,
                     needs_review_count = length needsReview \<rparr> \<rparr>)"

subsection \<open>Vocabulary of the normalizer's properties\<close>

text \<open>
  A qualifying line, as the specification words it: a line carrying an account-based or
  an item-based expense detail.
\<close>

definition qualifyingLine :: "lineItem \<Rightarrow> bool" where
  "qualifyingLine line =
     (li_AccountBasedExpenseLineDetail line \<noteq> None \<or> li_ItemBasedExpenseLineDetail line \<noteq> None)"

definition itemBasedOnly :: "lineItem \<Rightarrow> bool" where
  "itemBasedOnly line =
     (li_AccountBasedExpenseLineDetail line = None \<and> li_ItemBasedExpenseLineDetail line \<noteq> None)"

definition strictlyNegative :: "real option \<Rightarrow> bool" where
  "strictlyNegative a = (case a of None \<Rightarrow> False | Some x \<Rightarrow> x < 0)"

definition nonZero :: "real option \<Rightarrow> bool" where
  "nonZero a = (case a of None \<Rightarrow> False | Some x \<Rightarrow> x \<noteq> 0)"

text \<open>The payroll keywords of the specification, and the two the memo is searched for.\<close>

definition payrollKeywords :: "string list" where
  "payrollKeywords = [''payroll'', ''wage'', ''salary'', ''paychex'']"

definition memoKeywords :: "string list" where
  "memoKeywords = [''payroll'', ''paychex'']"

definition mentionsAny :: "string \<Rightarrow> string list \<Rightarrow> bool" where
  "mentionsAny s kws = list_ex (\<lambda>kw. str_includes (toLowerCase s) kw) kws"

section \<open>The bank feed: /api/plaid/sync and /api/plaid/transactions\<close>

subsection \<open>Upstream items and the mapping both handlers apply\<close>

record financeCategory =
  pfc_primary :: "string option"
  pfc_detailed :: "string option"

text \<open>A transaction as the bank feed delivers it; its amount is positive for money out.\<close>

record plaidItem =
  px_transaction_id :: "string option"
  px_account_id :: "string option"
  px_date :: "string option"
  px_name :: "string option"
  px_merchant_name :: "string option"
  px_amount :: real
  px_personal_finance_category :: "financeCategory option"
  px_category :: "string list option"
  px_pending :: "bool option"

text \<open>An entry of \<open>plaidAccounts\<close>: one linked institution.\<close>

record institution =
  in_id :: string
  in_access_token :: string
  in_institution_name :: string
  in_cursor :: "string option"
  in_excluded_accounts :: "string list option"
  in_last_synced :: "string option"

record bankTxn =
  bt_id :: "string option"
  bt_plaid_account_id :: string
  bt_account_id :: "string option"
  bt_institution :: string
  bt_date :: "string option"
  bt_description :: "string option"
  bt_merchant_name :: "string option"
  bt_amount :: real
  bt_category :: string
  bt_category_detailed :: "string option"
  bt_pending :: "bool option"
  bt_type :: string
  bt_source :: string

record feedError =
  fe_institution :: string
  fe_error :: "string option"

fun joinWith :: "string \<Rightarrow> string list \<Rightarrow> string" where
  "joinWith sep [] = []"
| "joinWith sep [x] = x"
| "joinWith sep (x # y # ys) = x @ sep @ joinWith sep (y # ys)"

definition itemsOf :: "'a list option \<Rightarrow> 'a list" where
  "itemsOf xs = (case xs of None \<Rightarrow> [] | Some l \<Rightarrow> l)"

definition notExcluded :: "institution \<Rightarrow> plaidItem \<Rightarrow> bool" where
  "notExcluded account t =
     (case px_account_id t of
        None \<Rightarrow> True
      | Some a \<Rightarrow> a \<notin> set (itemsOf (in_excluded_accounts account)))"

definition firstCategory :: "plaidItem \<Rightarrow> string option" where
  "firstCategory t = (case px_category t of Some (c # cs) \<Rightarrow> Some c | _ \<Rightarrow> None)"

definition mapItem :: "institution \<Rightarrow> plaidItem \<Rightarrow> bankTxn" where
  "mapItem account t =
     \<lparr> bt_id = px_transaction_id t,
       bt_plaid_account_id = in_id account,
       bt_account_id = px_account_id t,
       bt_institution = in_institution_name account,
       bt_date = px_date t,
       bt_description = px_name t,
       bt_merchant_name = px_merchant_name t,
       bt_amount = px_amount t,
       bt_category =
         orDefault (orElse (Option.bind (px_personal_finance_category t) pfc_primary)
                      (firstCategory t)) ''Uncategorized'',
       bt_category_detailed =
         (if truthy (Option.bind (px_personal_finance_category t) pfc_detailed)
          then Option.bind (px_personal_finance_category t) pfc_detailed
          else map_option (joinWith '' > '') (px_category t)),
       bt_pending = px_pending t,
       bt_type = (if px_amount t > 0 then ''expense'' else ''income''),
       bt_source = ''plaid'' \<rparr>"

definition ingest :: "institution \<Rightarrow> plaidItem list option \<Rightarrow> bankTxn list" where
  "ingest account items = map (mapItem account) (filter (notExcluded account) (itemsOf items))"

subsection \<open>POST /api/plaid/sync\<close>

text \<open>
  The answer to one \<open>transactions/sync\<close> request: the request throws, the body carries
  an error code (with its message), or it carries the added items and the next cursor.
\<close>

datatype syncReply =
  SyncThrows string
| SyncError "string option"
| SyncData "plaidItem list option" "string option"

fun syncAccounts ::
  "(institution \<Rightarrow> syncReply) \<Rightarrow> string \<Rightarrow> institution list \<Rightarrow>
   bankTxn list \<times> feedError list \<times> institution list" where
  "syncAccounts api now [] = ([], [], [])"
| "syncAccounts api now (account # rest) =
     (case syncAccounts api now rest of (txns, errs, accts) \<Rightarrow>
        (case api account of
           SyncThrows msg \<Rightarrow>
             (txns, \<lparr> fe_institution = in_institution_name account, fe_error = Some msg \<rparr> # errs,
              account # accts)
         | SyncError msg \<Rightarrow>
             (txns, \<lparr> fe_institution = in_institution_name account, fe_error = msg \<rparr> # errs,
              account # accts)
         | SyncData added next_cursor \<Rightarrow>
             (ingest account added @ txns, errs,
              account\<lparr> in_cursor := next_cursor, in_last_synced := Some now \<rparr> # accts)))"

record syncBody =
  sb_success :: bool
  sb_transactions_synced :: nat
  sb_transactions :: "bankTxn list"
  sb_errors :: "feedError list option"

definition plaidSync ::
  "bool \<Rightarrow> (institution \<Rightarrow> syncReply) \<Rightarrow> string \<Rightarrow> institution list \<Rightarrow>
   syncBody reply \<times> institution list" where
  "plaidSync configured api now plaidAccounts =
     (if \<not> configured then (Status 400 ''Plaid not configured'', plaidAccounts)
      else if plaidAccounts = [] then (Status 400 ''No bank accounts connected'', plaidAccounts)
      else
        (case syncAccounts api now plaidAccounts of (txns, errs, accts) \<Rightarrow>
           (Json \<lparr> sb_success = True,
                   sb_transactions_synced = length txns,
                   sb_transactions = txns,
                   sb_errors = (if length errs > 0 then Some errs else None) \<rparr>,
            accts)))"

subsection \<open>GET /api/plaid/transactions\<close>

text \<open>
  The answer to one \<open>transactions/get\<close> request. The feed is a function of the number
  of the request within the loop and of the offset asked for, so that it may answer the
  same offset differently each time. The loop may run forever; its model returns
  \<open>None\<close> then.
\<close>

datatype getReply =
  GetThrows string
| GetError "string option"
| GetData "plaidItem list option" "int option"

datatype loopEnd = Finished | Broke "string option" | Threw string

partial_function (option) pageLoop ::
  "institution \<Rightarrow> (nat \<Rightarrow> nat \<Rightarrow> getReply) \<Rightarrow> nat \<Rightarrow> nat \<Rightarrow> bankTxn list \<Rightarrow>
   (bankTxn list \<times> loopEnd) option" where
  "pageLoop account api n offset allTransactions =
     (case api n offset of
        GetThrows msg \<Rightarrow> Some (allTransactions, Threw msg)
      | GetError msg \<Rightarrow> Some (allTransactions, Broke msg)
      | GetData transactions total_transactions \<Rightarrow>
          (let allTransactions' = allTransactions @ ingest account transactions;
               offset' = offset + length (itemsOf transactions);
               hasMore = (case total_transactions of None \<Rightarrow> False | Some tot \<Rightarrow> int offset' < tot)
           in if offset' \<ge> 5000 then Some (allTransactions', Finished)
              else if hasMore then pageLoop account api (Suc n) offset' allTransactions'
              else Some (allTransactions', Finished)))"

fun listAccounts ::
  "(institution \<Rightarrow> nat \<Rightarrow> nat \<Rightarrow> getReply) \<Rightarrow> string \<Rightarrow> institution list \<Rightarrow>
   (bankTxn list \<times> feedError list \<times> institution list) option" where
  "listAccounts api now [] = Some ([], [], [])"
| "listAccounts api now (account # rest) =
     (case pageLoop account (api account) 0 0 [] of
        None \<Rightarrow> None
      | Some (txns, ending) \<Rightarrow>
          (case listAccounts api now rest of
             None \<Rightarrow> None
           | Some (txns', errs, accts) \<Rightarrow>
               (case ending of
                  Finished \<Rightarrow>
                    Some (txns @ txns', errs, account\<lparr> in_last_synced := Some now \<rparr> # accts)
                | Broke msg \<Rightarrow>
                    Some (txns @ txns',
                          \<lparr> fe_institution = in_institution_name account, fe_error = msg \<rparr> # errs,
                          account\<lparr> in_last_synced := Some now \<rparr> # accts)
                | Threw msg \<Rightarrow>
                    Some (txns @ txns',
                          \<lparr> fe_institution = in_institution_name account, fe_error = Some msg \<rparr> # errs,
                          account # accts))))"

record listBody =
  tb_transactions :: "bankTxn list"
  tb_count :: "nat option"
  tb_errors :: "feedError list option"
  tb_message :: "string option"

text \<open>
  \<open>dateValue\<close> is the number \<open>new Date(date)\<close> stands for; the final sort is stable and
  descending in it.
\<close>

definition plaidTransactions ::
  "bool \<Rightarrow> (institution \<Rightarrow> nat \<Rightarrow> nat \<Rightarrow> getReply) \<Rightarrow> (string option \<Rightarrow> int) \<Rightarrow> string \<Rightarrow>
   institution list \<Rightarrow> (listBody reply \<times> institution list) option" where
  "plaidTransactions configured api dateValue now plaidAccounts =
     (if \<not> configured then Some (Status 400 ''Plaid not configured'', plaidAccounts)
      else if plaidAccounts = []
      then Some (Json \<lparr> tb_transactions = [], tb_count = None, tb_errors = None,
                        tb_message = Some ''No bank accounts connected'' \<rparr>, plaidAccounts)
      else
        (case listAccounts api now plaidAccounts of
           None \<Rightarrow> None
         | Some (txns, errs, accts) \<Rightarrow>
             Some (Json \<lparr> tb_transactions = sort_key (\<lambda>x. - dateValue (bt_date x)) txns,
                          tb_count = Some (length txns),
                          tb_errors = (if length errs > 0 then Some errs else None),
                          tb_message = None \<rparr>,
                   accts)))"

section \<open>Sample values\<close>

text \<open>A small server and classifier on which the results below are replayed.\<close>

definition ruleNoConfidence :: rule where
  "ruleNoConfidence =
     \<lparr> rule_id = ''rule-1'', pattern = ''Affiliate'', patternType = ''contains'',
       categoryId = ''42'', categoryName = ''Affiliate Payouts'', confidence = None,
       timesUsed = Some 1, createdAt = None, updatedAt = None \<rparr>"

definition ruleZero :: rule where
  "ruleZero = ruleNoConfidence\<lparr> confidence := Some 0 \<rparr>"

definition payoutTxn :: txnRequest where
  "payoutTxn =
     \<lparr> tr_id = Some ''t1'', tr_description = Some ''WF DIRECT PAY AFFILIATE PAYOUT'',
       tr_vendor = Some [] \<rparr>"

definition silentWorld :: world where
  "silentWorld =
     \<lparr> anthropic = Some (\<lambda>t cats. AiNoJson), accountsApi = (\<lambda>p. Failed), writeFails = False \<rparr>"

definition serverWith :: "rule list \<Rightarrow> server" where
  "serverWith rules =
     \<lparr> access_token = Some ''token'', learnedRules = rules, categories = [], rulesFile = None \<rparr>"

definition ruleLow :: rule where
  "ruleLow =
     \<lparr> rule_id = ''rule-2'', pattern = ''amazon'', patternType = ''contains'',
       categoryId = ''7'', categoryName = ''Office Supplies'', confidence = Some 0.5,
       timesUsed = Some 1, createdAt = None, updatedAt = None \<rparr>"

definition ruleHigh :: rule where
  "ruleHigh =
     \<lparr> rule_id = ''rule-3'', pattern = ''AMAZON MKTPLACE'', patternType = ''starts_with'',
       categoryId = ''9'', categoryName = ''Software'', confidence = Some 1,
       timesUsed = Some 1, createdAt = None, updatedAt = None \<rparr>"

definition amazonTxn :: txnRequest where
  "amazonTxn =
     \<lparr> tr_id = Some ''t2'', tr_description = Some ''AMAZON MKTPLACE'', tr_vendor = Some ''Amazon'' \<rparr>"

definition unclearResult :: aiResult where
  "unclearResult =
     \<lparr> ai_categoryId = None, ai_categoryName = None, ai_confidence = Some 0,
       ai_reasoning = Some ''unclear'', ai_source = [] \<rparr>"

definition answeringWorld :: world where
  "answeringWorld =
     \<lparr> anthropic = Some (\<lambda>t cats. AiJson unclearResult), accountsApi = (\<lambda>p. Failed),
       writeFails = False \<rparr>"

definition failingDisk :: world where
  "failingDisk = \<lparr> anthropic = None, accountsApi = (\<lambda>p. Failed), writeFails = True \<rparr>"

definition clockA :: clock where
  "clockA = \<lparr> nowMillis = ''1700000000000'', nowIso = ''2023-11-14T22:13:20.000Z'' \<rparr>"

definition clockB :: clock where
  "clockB = \<lparr> nowMillis = ''1700000060000'', nowIso = ''2023-11-14T22:14:20.000Z'' \<rparr>"

definition teachTravel :: learnBody where
  "teachTravel =
     \<lparr> lb_pattern = ''AFFILIATE'', lb_categoryId = ''11'', lb_categoryName = ''Travel'',
       lb_patternType = None \<rparr>"

definition teachMeals :: learnBody where
  "teachMeals =
     \<lparr> lb_pattern = ''AFFILIATE'', lb_categoryId = ''12'', lb_categoryName = ''Meals'',
       lb_patternType = None \<rparr>"

definition blankEntity :: entity where
  "blankEntity =
     \<lparr> en_Id = Some ''1'', en_TxnDate = Some ''2025-01-15'', en_EntityRef = None,
       en_VendorRef = None, en_PrivateNote = None, en_DocNumber = None,
       en_PaymentType = None, en_TotalAmt = Some 0, en_Line = None \<rparr>"

definition secondPageFails :: "nat \<Rightarrow> entity page" where
  "secondPageFails p = (if p = 1 then Records (replicate 1000 blankEntity) else Failed)"

definition purchasesDown :: ledger where
  "purchasesDown =
     \<lparr> reportFails = False,
       entityApi = (\<lambda>ty. if ty = ''Purchase'' then (\<lambda>p. Failed)
                         else if ty = ''Bill'' then secondPageFails
                         else (\<lambda>p. Records [])),
       accountApi = (\<lambda>p. Failed),
       vendorApi = (\<lambda>p. Failed) \<rparr>"

definition officeSupplies :: ref where
  "officeSupplies = \<lparr> ref_value = Some ''61'', ref_name = Some ''Office Supplies'' \<rparr>"

definition expenseLine :: "real \<Rightarrow> lineItem" where
  "expenseLine a =
     \<lparr> li_Description = None, li_Amount = Some a,
       li_AccountBasedExpenseLineDetail = Some \<lparr> ad_AccountRef = Some officeSupplies \<rparr>,
       li_ItemBasedExpenseLineDetail = None,
       li_JournalEntryLineDetail = None \<rparr>"

definition purchaseOf :: "lineItem list \<Rightarrow> entity" where
  "purchaseOf ls = blankEntity\<lparr> en_Line := Some ls \<rparr>"

definition journalLineOn :: "string \<Rightarrow> string \<Rightarrow> string \<Rightarrow> real \<Rightarrow> lineItem" where
  "journalLineOn ident name posting a =
     \<lparr> li_Description = None, li_Amount = Some a,
       li_AccountBasedExpenseLineDetail = None,
       li_ItemBasedExpenseLineDetail = None,
       li_JournalEntryLineDetail =
         Some \<lparr> jd_AccountRef = Some \<lparr> ref_value = Some ident, ref_name = Some name \<rparr>,
                jd_PostingType = Some posting \<rparr> \<rparr>"

definition chart :: "account list" where
  "chart =
     [\<lparr> acc_Id = Some ''35'', acc_Name = Some ''Checking'', acc_FullyQualifiedName = None,
        acc_AccountType = Some ''Bank'', acc_AccountSubType = None, acc_Active = Some True \<rparr>,
      \<lparr> acc_Id = Some ''70'', acc_Name = Some ''Misc Expense'', acc_FullyQualifiedName = None,
        acc_AccountType = Some ''Expense'', acc_AccountSubType = None, acc_Active = Some True \<rparr>,
      \<lparr> acc_Id = Some ''88'', acc_Name = Some ''Security Deposits'', acc_FullyQualifiedName = None,
        acc_AccountType = Some ''Other Asset'', acc_AccountSubType = None, acc_Active = Some True \<rparr>]"

definition salaryEntry :: entity where
  "salaryEntry =
     blankEntity\<lparr> en_PrivateNote := Some ''Monthly salary run'',
        en_Line := Some [journalLineOn ''70'' ''Misc Expense'' ''Debit'' 100,
                         journalLineOn ''35'' ''Checking'' ''Credit'' 100] \<rparr>"

definition depositEntry :: entity where
  "depositEntry =
     blankEntity\<lparr> en_PrivateNote := Some ''Lease deposit'',
        en_Line := Some [journalLineOn ''88'' ''Security Deposits'' ''Debit'' 500,
                         journalLineOn ''35'' ''Checking'' ''Credit'' 500] \<rparr>"

definition wellsFargo :: institution where
  "wellsFargo =
     \<lparr> in_id = ''plaid-1'', in_access_token = ''access-token'',
       in_institution_name = ''Wells Fargo'', in_cursor = None,
       in_excluded_accounts = Some [''savings''], in_last_synced = None \<rparr>"

definition paychexItem :: plaidItem where
  "paychexItem =
     \<lparr> px_transaction_id = Some ''tx-1'', px_account_id = Some ''checking'',
       px_date = Some ''2025-01-15'', px_name = Some ''PAYCHEX'',
       px_merchant_name = Some ''Paychex'', px_amount = 20545.04,
       px_personal_finance_category = None, px_category = None, px_pending = Some False \<rparr>"

definition refundItem :: plaidItem where
  "refundItem =
     paychexItem\<lparr> px_transaction_id := Some ''tx-2'', px_name := Some ''REFUND'',
        px_amount := - 12.5 \<rparr>"

definition syncOnce :: "institution \<Rightarrow> syncReply" where
  "syncOnce account = SyncData (Some [paychexItem, refundItem]) (Some ''cursor-1'')"

definition onePage :: "institution \<Rightarrow> nat \<Rightarrow> nat \<Rightarrow> getReply" where
  "onePage account n offset = GetData (Some [paychexItem, refundItem]) (Some 2)"

text \<open>A feed that answers every request with an empty page and a total of one.\<close>

definition stuckFeed :: "nat \<Rightarrow> nat \<Rightarrow> getReply" where
  "stuckFeed n offset = GetData (Some []) (Some 1)"

section \<open>Properties\<close>

subsection \<open>Rule matching and auto-approval\<close>

lemma scanRules_find: "scanRules k rules = map_option matchOf (find (ruleMatches k) rules)"
  by (induction rules) auto

lemma findMatchingRule_find:
  "findMatchingRule rules d v = map_option matchOf (find (ruleMatches (searchTextOf d v)) rules)"
  by (simp add: findMatchingRule_def scanRules_find)

lemma batchLoop_length: "length (fst (batchLoop w rules cats ts)) = length ts"
  by (induction ts) (simp_all add: Let_def case_prod_beta)

lemma batchLoop_auto_nth:
  "i < length ts \<Longrightarrow>
   autoApprovable (findMatchingRule rules (tr_description (ts ! i)) (tr_vendor (ts ! i))) \<Longrightarrow>
   fst (batchLoop w rules cats ts) ! i =
     \<lparr> bi_transactionId = tr_id (ts ! i),
       bi_suggestion = map_option FromRule (findMatchingRule rules (tr_description (ts ! i)) (tr_vendor (ts ! i))),
       bi_autoApproved = True \<rparr>"
proof (induction ts arbitrary: i)
  case Nil
  then show ?case by simp
next
  case (Cons t ts)
  show ?case
  proof (cases i)
    case 0
    with Cons.prems show ?thesis by (simp add: Let_def case_prod_beta)
  next
    case (Suc j)
    with Cons.prems Cons.IH [of j] show ?thesis by (simp add: Let_def case_prod_beta)
  qed
qed

lemmas string_eval =
  searchTextOf_def ruleMatches_def toLowerCase_def lowerChar_def jsString_def startsWith_def

text \<open>
  C10. When the first rule that matches a transaction has no confidence, a null one or
  0, \<open>findMatchingRule\<close> returns its suggestion with confidence 1; for an authenticated
  request the categorize handler then returns it auto-approved without calling the
  classifier, and the batch handler auto-approves the transaction at its position (a
  batch of that transaction alone makes no classifier call).
\<close>

theorem missing_confidence_auto_approved:
  assumes first: "find (ruleMatches (searchTextOf (tr_description t) (tr_vendor t))) (learnedRules st) = Some r"
    and conf: "confidence r = None \<or> confidence r = Some 0"
    and auth: "truthy (access_token st)"
    and pos: "i < length ts" "ts ! i = t"
  shows "findMatchingRule (learnedRules st) (tr_description t) (tr_vendor t) = Some (matchOf r)
       \<and> rm_confidence (matchOf r) = 1
       \<and> categorize w st t =
           (Json \<lparr> cb_suggestion = Some (FromRule (matchOf r)), cb_autoApproved = True \<rparr>, st, 0)
       \<and> (\<exists>results st' calls. categorizeBatch w st ts = (Json results, st', calls)
            \<and> length results = length ts
            \<and> results ! i = \<lparr> bi_transactionId = tr_id t,
                               bi_suggestion = Some (FromRule (matchOf r)),
                               bi_autoApproved = True \<rparr>)
       \<and> snd (snd (categorizeBatch w st [t])) = 0"
proof -
  have m: "findMatchingRule (learnedRules st) (tr_description t) (tr_vendor t) = Some (matchOf r)"
    using first by (simp add: findMatchingRule_find)
  have c: "rm_confidence (matchOf r) = 1"
    using conf by (auto simp: matchOf_def confidenceOr1_def)
  have a: "autoApprovable (findMatchingRule (learnedRules st) (tr_description t) (tr_vendor t))"
    by (simp add: m c autoApprovable_def)
  have single: "categorize w st t =
      (Json \<lparr> cb_suggestion = Some (FromRule (matchOf r)), cb_autoApproved = True \<rparr>, st, 0)"
    using auth a by (simp add: categorize_def m)
  define st' where "st' = (if categories st = [] then st\<lparr>categories := fetchAndCacheCategories w\<rparr> else st)"
  have rules': "learnedRules st' = learnedRules st"
    by (simp add: st'_def)
  define res where "res = batchLoop w (learnedRules st) (categories st') ts"
  have b: "categorizeBatch w st ts = (Json (fst res), st', snd res)"
    using auth by (simp add: categorizeBatch_def Let_def st'_def [symmetric] rules' res_def case_prod_beta)
  have n: "fst res ! i = \<lparr> bi_transactionId = tr_id t,
                               bi_suggestion = Some (FromRule (matchOf r)),
                               bi_autoApproved = True \<rparr>"
    unfolding res_def using batchLoop_auto_nth [of i ts "learnedRules st" w "categories st'"] pos a m
    by simp
  have l: "length (fst res) = length ts"
    by (simp add: res_def batchLoop_length)
  have z: "snd (snd (categorizeBatch w st [t])) = 0"
    using auth a by (simp add: categorizeBatch_def Let_def m case_prod_beta)
  from m c single b n l z show ?thesis by blast
qed

theorem missing_confidence_auto_approved_witness:
  "find (ruleMatches (searchTextOf (tr_description payoutTxn) (tr_vendor payoutTxn)))
      (learnedRules (serverWith [ruleNoConfidence])) = Some ruleNoConfidence
   \<and> confidence ruleNoConfidence = None
   \<and> truthy (access_token (serverWith [ruleNoConfidence]))
   \<and> categorize silentWorld (serverWith [ruleNoConfidence]) payoutTxn =
        (Json \<lparr> cb_suggestion = Some (FromRule
                   \<lparr> rm_categoryId = ''42'', rm_categoryName = ''Affiliate Payouts'',
                     rm_confidence = 1, rm_source = ''learned_rule'', rm_ruleId = ''rule-1'' \<rparr>),
                 cb_autoApproved = True \<rparr>,
         serverWith [ruleNoConfidence], 0)"
proof -
  have h1: "find (ruleMatches (searchTextOf (tr_description payoutTxn) (tr_vendor payoutTxn)))
      (learnedRules (serverWith [ruleNoConfidence])) = Some ruleNoConfidence"
    by (simp add: serverWith_def payoutTxn_def ruleNoConfidence_def string_eval)
  have h2: "confidence ruleNoConfidence = None \<or> confidence ruleNoConfidence = Some 0"
    by (simp add: ruleNoConfidence_def)
  have h3: "truthy (access_token (serverWith [ruleNoConfidence]))"
    by (simp add: serverWith_def truthy_def)
  have h4: "0 < length [payoutTxn]" "[payoutTxn] ! 0 = payoutTxn"
    by simp_all
  from missing_confidence_auto_approved [OF h1 h2 h3 h4, of silentWorld]
  have "categorize silentWorld (serverWith [ruleNoConfidence]) payoutTxn =
        (Json \<lparr> cb_suggestion = Some (FromRule (matchOf ruleNoConfidence)), cb_autoApproved = True \<rparr>,
         serverWith [ruleNoConfidence], 0)"
    by blast
  moreover have "matchOf ruleNoConfidence =
      \<lparr> rm_categoryId = ''42'', rm_categoryName = ''Affiliate Payouts'',
        rm_confidence = 1, rm_source = ''learned_rule'', rm_ruleId = ''rule-1'' \<rparr>"
    by (simp add: matchOf_def ruleNoConfidence_def confidenceOr1_def)
  ultimately show ?thesis
    using h1 h3 by (simp add: ruleNoConfidence_def)
qed

text \<open>
  C2, as stated, fails in two ways. Where an earlier rule of lower confidence matches
  too: two rules match the Amazon transaction, the second with confidence 1, yet the
  scan stops at the first (confidence 0.5), the classifier is called, and the reply is
  not auto-approved. And where the matched rule has confidence 0, which is not at least
  0.95: it is read as 1 and the reply is auto-approved without a classifier call.
\<close>

theorem categorize_as_stated_counterexample:
  "ruleHigh \<in> set (learnedRules (serverWith [ruleLow, ruleHigh]))
   \<and> ruleMatches (searchTextOf (tr_description amazonTxn) (tr_vendor amazonTxn)) ruleHigh
   \<and> confidence ruleHigh = Some 1
   \<and> categorize silentWorld (serverWith [ruleLow, ruleHigh]) amazonTxn =
        (Json \<lparr> cb_suggestion = Some (FromRule (matchOf ruleLow)), cb_autoApproved = False \<rparr>,
         serverWith [ruleLow, ruleHigh], 1)
   \<and> confidence ruleZero = Some 0
   \<and> categorize silentWorld (serverWith [ruleZero]) payoutTxn =
        (Json \<lparr> cb_suggestion = Some (FromRule (matchOf ruleZero)), cb_autoApproved = True \<rparr>,
         serverWith [ruleZero], 0)"
proof -
  have k: "searchTextOf (tr_description amazonTxn) (tr_vendor amazonTxn) = ''amazon mktplace amazon''"
    by (simp add: amazonTxn_def string_eval)
  have hi: "ruleMatches ''amazon mktplace amazon'' ruleHigh"
    by (simp add: ruleHigh_def string_eval)
  have lo: "ruleMatches ''amazon mktplace amazon'' ruleLow"
    by (simp add: ruleLow_def string_eval)
  have f: "findMatchingRule (learnedRules (serverWith [ruleLow, ruleHigh]))
             (tr_description amazonTxn) (tr_vendor amazonTxn) = Some (matchOf ruleLow)"
    by (simp add: findMatchingRule_def k lo serverWith_def)
  have c: "rm_confidence (matchOf ruleLow) = 0.5"
    by (simp add: matchOf_def ruleLow_def confidenceOr1_def)
  have cat: "fetchAndCacheCategories silentWorld = []"
    by (simp add: fetchAndCacheCategories_def fetchAllRecords_def fetchLoop.simps silentWorld_def)
  have ai: "aiCategorize silentWorld amazonTxn [] = (None, 1)"
    by (simp add: aiCategorize_def silentWorld_def)
  have first: "categorize silentWorld (serverWith [ruleLow, ruleHigh]) amazonTxn =
        (Json \<lparr> cb_suggestion = Some (FromRule (matchOf ruleLow)), cb_autoApproved = False \<rparr>,
         serverWith [ruleLow, ruleHigh], 1)"
    unfolding categorize_def f
    by (simp add: autoApprovable_def c cat ai aiOrRule_def truthy_def serverWith_def)
  have z: "confidence ruleZero = Some 0"
    by (simp add: ruleZero_def)
  have fz: "findMatchingRule (learnedRules (serverWith [ruleZero]))
             (tr_description payoutTxn) (tr_vendor payoutTxn) = Some (matchOf ruleZero)"
    by (simp add: findMatchingRule_def serverWith_def payoutTxn_def ruleZero_def
        ruleNoConfidence_def string_eval)
  have cz: "rm_confidence (matchOf ruleZero) = 1"
    by (simp add: matchOf_def z confidenceOr1_def)
  have second: "categorize silentWorld (serverWith [ruleZero]) payoutTxn =
        (Json \<lparr> cb_suggestion = Some (FromRule (matchOf ruleZero)), cb_autoApproved = True \<rparr>,
         serverWith [ruleZero], 0)"
    unfolding categorize_def fz
    by (simp add: autoApprovable_def cz truthy_def serverWith_def)
  from hi k first z second show ?thesis
    by (simp add: serverWith_def ruleHigh_def)
qed

text \<open>
  C2, amended. For an authenticated request, let the first rule in stored order that
  matches the search key be the matched rule, its confidence read as 1 when it is
  missing or 0. If there is one and that confidence is at least 0.95, the handler
  returns its suggestion with autoApproved = true, leaves the state alone and makes no
  classifier call. Otherwise (no rule matches, or the matched rule is below 0.95) the
  category cache is filled when empty, the suggestion is the classifier's result when
  it produced one, else the matched rule, else none, and autoApproved = false whatever
  confidence the classifier reported.
\<close>

theorem categorize_first_match_policy:
  assumes auth: "truthy (access_token st)"
    and key: "key = searchTextOf (tr_description t) (tr_vendor t)"
    and refreshed: "st' = (if categories st = [] then st\<lparr>categories := fetchAndCacheCategories w\<rparr> else st)"
  shows "(\<forall>r. find (ruleMatches key) (learnedRules st) = Some r \<and> 0.95 \<le> confidenceOr1 (confidence r) \<longrightarrow>
            categorize w st t =
              (Json \<lparr> cb_suggestion = Some (FromRule (matchOf r)), cb_autoApproved = True \<rparr>, st, 0))
       \<and> ((\<forall>r. find (ruleMatches key) (learnedRules st) = Some r \<longrightarrow> confidenceOr1 (confidence r) < 0.95) \<longrightarrow>
            categorize w st t =
              (Json \<lparr> cb_suggestion =
                        (case fst (aiCategorize w t (categories st')) of
                           Some a \<Rightarrow> Some (FromAI a)
                         | None \<Rightarrow> map_option (\<lambda>r. FromRule (matchOf r)) (find (ruleMatches key) (learnedRules st))),
                      cb_autoApproved = False \<rparr>,
               st', snd (aiCategorize w t (categories st'))))"
proof (intro conjI allI impI)
  fix r
  assume "find (ruleMatches key) (learnedRules st) = Some r \<and> 0.95 \<le> confidenceOr1 (confidence r)"
  then have m: "findMatchingRule (learnedRules st) (tr_description t) (tr_vendor t) = Some (matchOf r)"
    and c: "0.95 \<le> rm_confidence (matchOf r)"
    by (simp_all add: findMatchingRule_find key matchOf_def)
  show "categorize w st t =
      (Json \<lparr> cb_suggestion = Some (FromRule (matchOf r)), cb_autoApproved = True \<rparr>, st, 0)"
    using auth c by (simp add: categorize_def m autoApprovable_def)
next
  assume low: "\<forall>r. find (ruleMatches key) (learnedRules st) = Some r \<longrightarrow> confidenceOr1 (confidence r) < 0.95"
  have m: "findMatchingRule (learnedRules st) (tr_description t) (tr_vendor t) =
      map_option matchOf (find (ruleMatches key) (learnedRules st))"
    by (simp add: findMatchingRule_find key)
  have na: "\<not> autoApprovable (map_option matchOf (find (ruleMatches key) (learnedRules st)))"
    using low by (cases "find (ruleMatches key) (learnedRules st)")
      (auto simp: autoApprovable_def matchOf_def)
  show "categorize w st t =
      (Json \<lparr> cb_suggestion =
                (case fst (aiCategorize w t (categories st')) of
                   Some a \<Rightarrow> Some (FromAI a)
                 | None \<Rightarrow> map_option (\<lambda>r. FromRule (matchOf r)) (find (ruleMatches key) (learnedRules st))),
              cb_autoApproved = False \<rparr>,
       st', snd (aiCategorize w t (categories st')))"
    using auth na
    by (cases "fst (aiCategorize w t (categories st'))")
      (simp_all add: categorize_def m Let_def refreshed [symmetric] case_prod_beta aiOrRule_def
        option.map_comp comp_def)
qed

theorem categorize_first_match_policy_witness:
  "truthy (access_token (serverWith [ruleNoConfidence]))
   \<and> find (ruleMatches (searchTextOf (tr_description payoutTxn) (tr_vendor payoutTxn)))
        (learnedRules (serverWith [ruleNoConfidence])) = Some ruleNoConfidence
   \<and> (0.95::real) \<le> confidenceOr1 (confidence ruleNoConfidence)
   \<and> categorize answeringWorld (serverWith [ruleNoConfidence]) payoutTxn =
        (Json \<lparr> cb_suggestion = Some (FromRule (matchOf ruleNoConfidence)), cb_autoApproved = True \<rparr>,
         serverWith [ruleNoConfidence], 0)
   \<and> find (ruleMatches (searchTextOf (tr_description amazonTxn) (tr_vendor amazonTxn)))
        (learnedRules (serverWith [ruleLow])) = Some ruleLow
   \<and> confidenceOr1 (confidence ruleLow) < 0.95
   \<and> categorize answeringWorld (serverWith [ruleLow]) amazonTxn =
        (Json \<lparr> cb_suggestion = Some (FromAI (unclearResult\<lparr>ai_source := ''ai''\<rparr>)),
                cb_autoApproved = False \<rparr>,
         serverWith [ruleLow], 1)"
proof -
  have auth: "\<And>rules. truthy (access_token (serverWith rules))"
    by (simp add: serverWith_def truthy_def)
  have cat: "fetchAndCacheCategories answeringWorld = []"
    by (simp add: fetchAndCacheCategories_def fetchAllRecords_def fetchLoop.simps answeringWorld_def)
  have same: "\<And>rules. serverWith rules =
      (if categories (serverWith rules) = []
       then (serverWith rules)\<lparr>categories := fetchAndCacheCategories answeringWorld\<rparr>
       else serverWith rules)"
    by (simp add: cat serverWith_def)
  have f1: "find (ruleMatches (searchTextOf (tr_description payoutTxn) (tr_vendor payoutTxn)))
        (learnedRules (serverWith [ruleNoConfidence])) = Some ruleNoConfidence"
    by (simp add: serverWith_def payoutTxn_def ruleNoConfidence_def string_eval)
  have c1: "(0.95::real) \<le> confidenceOr1 (confidence ruleNoConfidence)"
    by (simp add: ruleNoConfidence_def confidenceOr1_def)
  have f2: "find (ruleMatches (searchTextOf (tr_description amazonTxn) (tr_vendor amazonTxn)))
        (learnedRules (serverWith [ruleLow])) = Some ruleLow"
    by (simp add: serverWith_def amazonTxn_def ruleLow_def string_eval)
  have c2: "confidenceOr1 (confidence ruleLow) < 0.95"
    by (simp add: ruleLow_def confidenceOr1_def)
  have ai: "aiCategorize answeringWorld amazonTxn (categories (serverWith [ruleLow])) =
      (Some (unclearResult\<lparr>ai_source := ''ai''\<rparr>), 1)"
    by (simp add: aiCategorize_def answeringWorld_def)
  from categorize_first_match_policy [OF auth refl same, where t = payoutTxn] f1 c1
  have r1: "categorize answeringWorld (serverWith [ruleNoConfidence]) payoutTxn =
        (Json \<lparr> cb_suggestion = Some (FromRule (matchOf ruleNoConfidence)), cb_autoApproved = True \<rparr>,
         serverWith [ruleNoConfidence], 0)"
    by blast
  from categorize_first_match_policy [OF auth refl same, where t = amazonTxn] f2 c2
  have r2: "categorize answeringWorld (serverWith [ruleLow]) amazonTxn =
        (Json \<lparr> cb_suggestion = Some (FromAI (unclearResult\<lparr>ai_source := ''ai''\<rparr>)),
                cb_autoApproved = False \<rparr>,
         serverWith [ruleLow], 1)"
    by (simp add: ai)
  from auth f1 c1 r1 f2 c2 r2 show ?thesis by blast
qed

subsection \<open>Persisting the rules\<close>

text \<open>
  C3, as stated, fails: with a disk whose write throws, teaching a rule to an empty
  store is answered with success and a count of one rule, while the rules file is still
  absent.
\<close>

theorem learn_rule_reports_success_counterexample:
  "writeFails failingDisk
   \<and> fst (learnRule failingDisk clockA (serverWith []) teachTravel) =
        Json \<lparr> lr_success = True, lr_rulesCount = 1 \<rparr>
   \<and> rulesFile (snd (learnRule failingDisk clockA (serverWith []) teachTravel)) = None"
  by (simp add: learnRule_def saveRules_def failingDisk_def serverWith_def teach_def Let_def)

text \<open>
  C3, amended. A teach or delete call always answers success. The rule set in memory
  is changed either way; the rules file holds the new rule set exactly when the write
  did not fail, and keeps its previous content (unreported to the caller) when it
  failed.
\<close>

theorem rule_persistence_failure_unreported:
  "fst (learnRule w clk st body) =
       Json \<lparr> lr_success = True, lr_rulesCount = length (teach clk body (learnedRules st)) \<rparr>
   \<and> learnedRules (snd (learnRule w clk st body)) = teach clk body (learnedRules st)
   \<and> rulesFile (snd (learnRule w clk st body)) =
       (if writeFails w then rulesFile st else Some (teach clk body (learnedRules st)))
   \<and> fst (deleteRule w st ident) = Json True
   \<and> learnedRules (snd (deleteRule w st ident)) = filter (\<lambda>r. rule_id r \<noteq> ident) (learnedRules st)
   \<and> rulesFile (snd (deleteRule w st ident)) =
       (if writeFails w then rulesFile st
        else Some (filter (\<lambda>r. rule_id r \<noteq> ident) (learnedRules st)))"
  by (simp add: learnRule_def deleteRule_def saveRules_def Let_def)

subsection \<open>Teaching a rule twice\<close>

lemma findIndex_None: "findIndex P xs = None \<longleftrightarrow> (\<forall>x \<in> set xs. \<not> P x)"
  by (induction xs) auto

lemma findIndex_Some: "findIndex P xs = Some i \<Longrightarrow> i < length xs \<and> P (xs ! i)"
  by (induction xs arbitrary: i) (auto split: if_splits)

lemma filter_update_first:
  "findIndex P xs = Some i \<Longrightarrow> (\<And>x. P (f x) = P x) \<Longrightarrow>
   filter P (xs[i := f (xs ! i)]) = (case filter P xs of [] \<Rightarrow> [] | y # ys \<Rightarrow> f y # ys)"
  by (induction xs arbitrary: i) (auto split: if_splits)

lemma sameRule_key: "sameRule p ty r \<longleftrightarrow> ruleKey r = (toLowerCase p, ty)"
  by (auto simp: sameRule_def ruleKey_def)

lemma ruleKey_updateExisting: "ruleKey (updateExisting clk body r) = ruleKey r"
  by (simp add: ruleKey_def updateExisting_def)

lemma ruleKey_newRule: "ruleKey (newRule clk body ty) = (toLowerCase (lb_pattern body), ty)"
  by (simp add: ruleKey_def newRule_def)

lemma teach_cases:
  assumes "effectiveType body = ty" "sameRule (lb_pattern body) ty = P"
  shows "teach clk body rules =
     (case findIndex P rules of
        Some i \<Rightarrow> rules[i := updateExisting clk body (rules ! i)]
      | None \<Rightarrow> rules @ [newRule clk body ty])"
  unfolding teach_def Let_def assms ..

text \<open>
  What one teach call does to the rules of its own pattern and type: the first of them
  is updated in place, or a new rule is appended when there is none.
\<close>

lemma teach_filter:
  assumes "toLowerCase (lb_pattern body) = toLowerCase p" "effectiveType body = ty"
  shows "filter (sameRule p ty) (teach clk body rules) =
     (case filter (sameRule p ty) rules of
        [] \<Rightarrow> [newRule clk body ty]
      | y # ys \<Rightarrow> updateExisting clk body y # ys)"
proof -
  have same: "sameRule (lb_pattern body) ty = sameRule p ty"
    using assms by (auto simp: sameRule_def fun_eq_iff)
  note tc = teach_cases [OF assms(2) same, of clk rules]
  show ?thesis
  proof (cases "findIndex (sameRule p ty) rules")
    case None
    then have no: "\<forall>x \<in> set rules. \<not> sameRule p ty x"
      by (simp add: findIndex_None)
    then have "filter (sameRule p ty) rules = []"
      by (simp add: filter_empty_conv)
    moreover have "sameRule p ty (newRule clk body ty)"
      using assms by (simp add: sameRule_key ruleKey_newRule)
    ultimately show ?thesis
      using None by (simp add: tc)
  next
    case (Some i)
    have "filter (sameRule p ty) (rules[i := updateExisting clk body (rules ! i)]) =
        (case filter (sameRule p ty) rules of [] \<Rightarrow> [] | y # ys \<Rightarrow> updateExisting clk body y # ys)"
      by (rule filter_update_first [OF Some]) (simp add: sameRule_key ruleKey_updateExisting)
    moreover from findIndex_Some [OF Some] have "filter (sameRule p ty) rules \<noteq> []"
      by (auto simp: filter_empty_conv)
    ultimately show ?thesis
      using Some by (simp add: tc split: list.splits)
  qed
qed

lemma teach_unique: "uniqueRules rules \<Longrightarrow> uniqueRules (teach clk body rules)"
proof (cases "findIndex (sameRule (lb_pattern body) (effectiveType body)) rules")
  case None
  assume u: "uniqueRules rules"
  from None have "\<forall>x \<in> set rules. ruleKey x \<noteq> (toLowerCase (lb_pattern body), effectiveType body)"
    by (simp add: findIndex_None sameRule_key)
  then have "(toLowerCase (lb_pattern body), effectiveType body) \<notin> ruleKey ` set rules"
    by auto
  with u None show ?thesis
    by (simp add: teach_cases [OF refl refl] uniqueRules_def ruleKey_newRule)
next
  case (Some i)
  assume u: "uniqueRules rules"
  from findIndex_Some [OF Some] have i: "i < length rules" by simp
  have "map ruleKey (rules[i := updateExisting clk body (rules ! i)]) = map ruleKey rules"
    using i by (simp add: map_update ruleKey_updateExisting list_update_same_conv)
  with u Some show ?thesis
    by (simp add: teach_cases [OF refl refl] uniqueRules_def)
qed

text \<open>
  C4, as stated, fails for a starting store that already holds the rule: taught twice
  again, the stored rule (used once) ends with timesUsed = 3, not 2.
\<close>

theorem teach_twice_existing_counterexample:
  "map timesUsed
     (filter (sameRule ''AFFILIATE'' ''contains'')
        (teach clockB teachMeals (teach clockA teachTravel [ruleNoConfidence]))) = [Some 3]"
proof -
  have s: "sameRule ''AFFILIATE'' ''contains'' ruleNoConfidence"
    by (simp add: sameRule_def ruleNoConfidence_def toLowerCase_def lowerChar_def)
  have t1: "teach clockA teachTravel [ruleNoConfidence] = [updateExisting clockA teachTravel ruleNoConfidence]"
    using s by (simp add: teach_def effectiveType_def teachTravel_def)
  have s': "sameRule ''AFFILIATE'' ''contains'' (updateExisting clockA teachTravel ruleNoConfidence)"
    using s by (simp add: sameRule_key ruleKey_updateExisting)
  have t2: "teach clockB teachMeals [updateExisting clockA teachTravel ruleNoConfidence] =
      [updateExisting clockB teachMeals (updateExisting clockA teachTravel ruleNoConfidence)]"
    using s' by (simp add: teach_def effectiveType_def teachMeals_def)
  have s'': "sameRule ''AFFILIATE'' ''contains''
      (updateExisting clockB teachMeals (updateExisting clockA teachTravel ruleNoConfidence))"
    using s' by (simp add: sameRule_key ruleKey_updateExisting)
  show ?thesis
    unfolding t1 t2 using s''
    by (simp add: updateExisting_def bumpTimesUsed_def ruleNoConfidence_def)
qed

text \<open>
  C4, amended. Let two teach calls carry the same pattern and pattern type (the type
  defaulting to contains). Started from a store with no rule for that pattern
  (compared case-insensitively) and type, they leave exactly one such rule: the one the
  first call created, with the second call's category and timesUsed = 2. Started from a
  store with exactly one such rule, they leave exactly that rule, with the second
  call's category and its counter bumped twice. Every teach call preserves the
  uniqueness invariant (no two rules with the same lower-cased pattern and type).
\<close>

theorem teach_twice:
  assumes pat: "lb_pattern b1 = p" "lb_pattern b2 = p"
    and ty: "effectiveType b1 = ty" "effectiveType b2 = ty"
  shows "((\<forall>r \<in> set rules. \<not> sameRule p ty r) \<longrightarrow>
            filter (sameRule p ty) (teach clk2 b2 (teach clk1 b1 rules)) =
              [(newRule clk1 b1 ty)\<lparr> categoryId := lb_categoryId b2, categoryName := lb_categoryName b2,
                    timesUsed := Some 2, updatedAt := Some (nowIso clk2) \<rparr>])
       \<and> (\<forall>r0. filter (sameRule p ty) rules = [r0] \<longrightarrow>
            filter (sameRule p ty) (teach clk2 b2 (teach clk1 b1 rules)) =
              [r0\<lparr> categoryId := lb_categoryId b2, categoryName := lb_categoryName b2,
                    timesUsed := Some (bumpTimesUsed (Some (bumpTimesUsed (timesUsed r0)))),
                    updatedAt := Some (nowIso clk2) \<rparr>])
       \<and> (uniqueRules rules \<longrightarrow>
            uniqueRules (teach clk1 b1 rules) \<and> uniqueRules (teach clk2 b2 (teach clk1 b1 rules)))"
proof -
  have f1: "filter (sameRule p ty) (teach clk1 b1 rules) =
     (case filter (sameRule p ty) rules of
        [] \<Rightarrow> [newRule clk1 b1 ty] | y # ys \<Rightarrow> updateExisting clk1 b1 y # ys)"
    using pat ty by (intro teach_filter) simp_all
  have f2: "filter (sameRule p ty) (teach clk2 b2 (teach clk1 b1 rules)) =
     (case filter (sameRule p ty) (teach clk1 b1 rules) of
        [] \<Rightarrow> [newRule clk2 b2 ty] | y # ys \<Rightarrow> updateExisting clk2 b2 y # ys)"
    using pat ty by (intro teach_filter) simp_all
  have a: "(\<forall>r \<in> set rules. \<not> sameRule p ty r) \<longrightarrow>
            filter (sameRule p ty) (teach clk2 b2 (teach clk1 b1 rules)) =
              [(newRule clk1 b1 ty)\<lparr> categoryId := lb_categoryId b2, categoryName := lb_categoryName b2,
                    timesUsed := Some 2, updatedAt := Some (nowIso clk2) \<rparr>]"
  proof
    assume "\<forall>r \<in> set rules. \<not> sameRule p ty r"
    then have "filter (sameRule p ty) rules = []"
      by (simp add: filter_empty_conv)
    then show "filter (sameRule p ty) (teach clk2 b2 (teach clk1 b1 rules)) =
              [(newRule clk1 b1 ty)\<lparr> categoryId := lb_categoryId b2, categoryName := lb_categoryName b2,
                    timesUsed := Some 2, updatedAt := Some (nowIso clk2) \<rparr>]"
      by (simp add: f2 f1 updateExisting_def newRule_def bumpTimesUsed_def)
  qed
  have b: "\<forall>r0. filter (sameRule p ty) rules = [r0] \<longrightarrow>
            filter (sameRule p ty) (teach clk2 b2 (teach clk1 b1 rules)) =
              [r0\<lparr> categoryId := lb_categoryId b2, categoryName := lb_categoryName b2,
                    timesUsed := Some (bumpTimesUsed (Some (bumpTimesUsed (timesUsed r0)))),
                    updatedAt := Some (nowIso clk2) \<rparr>]"
    by (simp add: f2 f1 updateExisting_def)
  have c: "uniqueRules rules \<longrightarrow>
            uniqueRules (teach clk1 b1 rules) \<and> uniqueRules (teach clk2 b2 (teach clk1 b1 rules))"
    by (simp add: teach_unique)
  from a b c show ?thesis by blast
qed

theorem teach_twice_witness:
  "lb_pattern teachTravel = ''AFFILIATE'' \<and> lb_pattern teachMeals = ''AFFILIATE''
   \<and> effectiveType teachTravel = ''contains'' \<and> effectiveType teachMeals = ''contains''
   \<and> uniqueRules [ruleLow]
   \<and> uniqueRules (teach clockB teachMeals (teach clockA teachTravel [ruleLow]))
   \<and> map (\<lambda>r. (categoryName r, timesUsed r))
       (filter (sameRule ''AFFILIATE'' ''contains'')
          (teach clockB teachMeals (teach clockA teachTravel [ruleLow]))) = [(''Meals'', Some 2)]
   \<and> filter (sameRule ''AFFILIATE'' ''contains'') [ruleNoConfidence] = [ruleNoConfidence]
   \<and> map (\<lambda>r. (categoryName r, timesUsed r))
       (filter (sameRule ''AFFILIATE'' ''contains'')
          (teach clockB teachMeals (teach clockA teachTravel [ruleNoConfidence]))) = [(''Meals'', Some 3)]"
proof -
  have p: "lb_pattern teachTravel = ''AFFILIATE''" "lb_pattern teachMeals = ''AFFILIATE''"
    by (simp_all add: teachTravel_def teachMeals_def)
  have t: "effectiveType teachTravel = ''contains''" "effectiveType teachMeals = ''contains''"
    by (simp_all add: effectiveType_def teachTravel_def teachMeals_def)
  have u: "uniqueRules [ruleLow]"
    by (simp add: uniqueRules_def)
  have none: "\<forall>r \<in> set [ruleLow]. \<not> sameRule ''AFFILIATE'' ''contains'' r"
    by (simp add: sameRule_def ruleLow_def toLowerCase_def lowerChar_def)
  have one: "filter (sameRule ''AFFILIATE'' ''contains'') [ruleNoConfidence] = [ruleNoConfidence]"
    by (simp add: sameRule_def ruleNoConfidence_def toLowerCase_def lowerChar_def)
  note th = teach_twice [OF p t, of _ clockB clockA]
  from th [of "[ruleLow]"] u none
  have r1: "uniqueRules (teach clockB teachMeals (teach clockA teachTravel [ruleLow]))"
    and r2: "filter (sameRule ''AFFILIATE'' ''contains'')
          (teach clockB teachMeals (teach clockA teachTravel [ruleLow])) =
        [(newRule clockA teachTravel ''contains'')\<lparr> categoryId := lb_categoryId teachMeals,
            categoryName := lb_categoryName teachMeals,
            timesUsed := Some 2, updatedAt := Some (nowIso clockB) \<rparr>]"
    by blast+
  from th [of "[ruleNoConfidence]"] one
  have r3: "filter (sameRule ''AFFILIATE'' ''contains'')
          (teach clockB teachMeals (teach clockA teachTravel [ruleNoConfidence])) =
        [ruleNoConfidence\<lparr> categoryId := lb_categoryId teachMeals,
            categoryName := lb_categoryName teachMeals,
            timesUsed := Some (bumpTimesUsed (Some (bumpTimesUsed (timesUsed ruleNoConfidence)))),
            updatedAt := Some (nowIso clockB) \<rparr>]"
    by blast
  have r2': "map (\<lambda>r. (categoryName r, timesUsed r))
       (filter (sameRule ''AFFILIATE'' ''contains'')
          (teach clockB teachMeals (teach clockA teachTravel [ruleLow]))) = [(''Meals'', Some 2)]"
    unfolding r2 by (simp add: teachMeals_def)
  have r3': "map (\<lambda>r. (categoryName r, timesUsed r))
       (filter (sameRule ''AFFILIATE'' ''contains'')
          (teach clockB teachMeals (teach clockA teachTravel [ruleNoConfidence]))) = [(''Meals'', Some 3)]"
    unfolding r3 by (simp add: teachMeals_def bumpTimesUsed_def ruleNoConfidence_def)
  from p t u r1 r2' one r3' show ?thesis by blast
qed

subsection \<open>Paginated fetches\<close>

lemma fetchLoop_Failed: "api p = Failed \<Longrightarrow> fetchLoop api p acc = acc"
  by (simp add: fetchLoop.simps)

lemma fetchLoop_step:
  "api p = Records rs \<Longrightarrow> maxResults \<le> length rs \<Longrightarrow> p + maxResults \<le> 10000 \<Longrightarrow>
   fetchLoop api p acc = fetchLoop api (p + maxResults) (acc @ rs)"
  by (subst fetchLoop.simps) (simp add: Let_def)

lemma fetchLoop_full_pages:
  "(\<forall>j < k. fullPage (api (p + maxResults * j))) \<Longrightarrow> p + maxResults * k \<le> 10000 \<Longrightarrow>
   fetchLoop api p acc =
     fetchLoop api (p + maxResults * k)
       (acc @ concat (map (\<lambda>j. recordsOf (api (p + maxResults * j))) [0..<k]))"
proof (induction k arbitrary: acc)
  case 0
  then show ?case by simp
next
  case (Suc k)
  have full: "fullPage (api (p + maxResults * k))"
    using Suc.prems(1) by simp
  then obtain rs where rs: "api (p + maxResults * k) = Records rs" "maxResults \<le> length rs"
    by (auto simp: fullPage_def split: page.splits)
  have "fetchLoop api p acc =
     fetchLoop api (p + maxResults * k)
       (acc @ concat (map (\<lambda>j. recordsOf (api (p + maxResults * j))) [0..<k]))"
    using Suc.prems by (intro Suc.IH) auto
  also have "\<dots> = fetchLoop api (p + maxResults * k + maxResults)
      ((acc @ concat (map (\<lambda>j. recordsOf (api (p + maxResults * j))) [0..<k])) @ rs)"
    using rs Suc.prems(2) by (intro fetchLoop_step) auto
  finally show ?case
    using rs by (simp add: recordsOf_def ac_simps)
qed

lemma fetchAllRecords_failure_at:
  assumes full: "\<forall>j < k. fullPage (api (1 + maxResults * j))"
    and k: "k \<le> 9"
    and fail: "api (1 + maxResults * k) = Failed"
  shows "fetchAllRecords api = concat (map (\<lambda>j. recordsOf (api (1 + maxResults * j))) [0..<k])"
proof -
  have "1 + maxResults * k \<le> 10000"
    using k by (simp add: maxResults_def)
  with full have "fetchLoop api 1 [] =
      fetchLoop api (1 + maxResults * k)
        ([] @ concat (map (\<lambda>j. recordsOf (api (1 + maxResults * j))) [0..<k]))"
    by (rule fetchLoop_full_pages)
  with fail show ?thesis
    by (simp add: fetchAllRecords_def fetchLoop_Failed)
qed

text \<open>
  C8, as stated, fails when the failing page is not the first: the first page of
  purchases is full and the second query fails, and the run keeps the thousand records
  of the first page rather than an empty set.
\<close>

theorem fetch_failure_on_second_page_counterexample:
  "secondPageFails (1 + maxResults) = Failed
   \<and> length (fetchAllRecords secondPageFails) = 1000"
proof -
  have f: "secondPageFails (1 + maxResults) = Failed"
    by (simp add: secondPageFails_def maxResults_def)
  have p: "secondPageFails 1 = Records (replicate 1000 blankEntity)"
    by (simp add: secondPageFails_def)
  have "fetchLoop secondPageFails 1 [] =
      fetchLoop secondPageFails (1 + maxResults) ([] @ replicate 1000 blankEntity)"
    using p by (rule fetchLoop_step) (simp_all add: maxResults_def)
  with f show ?thesis
    by (simp add: fetchAllRecords_def fetchLoop_Failed)
qed

text \<open>
  C8, amended. A failing query never aborts a fetch: when the query of the first page
  fails the fetch returns no records, and when the pages before the failing one were
  full it returns exactly their records (the failing page is one of the ten the loop
  can ask for). Once the profit-and-loss report has been fetched, the aggregation run
  completes whatever entity queries fail, and its debug field reports, for each
  transactional entity type, the number of records its own fetch returned.
\<close>

theorem fetch_failure_degrades_one_type:
  "(api 1 = Failed \<longrightarrow> fetchAllRecords api = [])
   \<and> (\<forall>k \<le> 9. (\<forall>j < k. fullPage (api (1 + maxResults * j))) \<and> api (1 + maxResults * k) = Failed \<longrightarrow>
         fetchAllRecords api = concat (map (\<lambda>j. recordsOf (api (1 + maxResults * j))) [0..<k]))
   \<and> (\<not> reportFails lg \<longrightarrow>
        (\<exists>d. fetchFinancialData lg = Inr d
           \<and> purchase_count (fd_debug d) = length (fetchAllRecords (entityApi lg ''Purchase''))
           \<and> bill_count (fd_debug d) = length (fetchAllRecords (entityApi lg ''Bill''))
           \<and> journal_entry_count (fd_debug d) = length (fetchAllRecords (entityApi lg ''JournalEntry''))
           \<and> salesreceipt_count (fd_debug d) = length (fetchAllRecords (entityApi lg ''SalesReceipt''))
           \<and> payment_count (fd_debug d) = length (fetchAllRecords (entityApi lg ''Payment''))
           \<and> deposit_count (fd_debug d) = length (fetchAllRecords (entityApi lg ''Deposit''))
           \<and> refund_count (fd_debug d) = length (fetchAllRecords (entityApi lg ''RefundReceipt''))
           \<and> vendor_credit_count (fd_debug d) = length (fetchAllRecords (entityApi lg ''VendorCredit''))))"
proof (intro conjI allI impI)
  assume "api 1 = Failed"
  then show "fetchAllRecords api = []"
    by (simp add: fetchAllRecords_def fetchLoop_Failed)
next
  fix k
  assume "k \<le> (9::nat)"
    and "(\<forall>j < k. fullPage (api (1 + maxResults * j))) \<and> api (1 + maxResults * k) = Failed"
  then show "fetchAllRecords api = concat (map (\<lambda>j. recordsOf (api (1 + maxResults * j))) [0..<k])"
    by (intro fetchAllRecords_failure_at) auto
next
  assume "\<not> reportFails lg"
  then show "\<exists>d. fetchFinancialData lg = Inr d
           \<and> purchase_count (fd_debug d) = length (fetchAllRecords (entityApi lg ''Purchase''))
           \<and> bill_count (fd_debug d) = length (fetchAllRecords (entityApi lg ''Bill''))
           \<and> journal_entry_count (fd_debug d) = length (fetchAllRecords (entityApi lg ''JournalEntry''))
           \<and> salesreceipt_count (fd_debug d) = length (fetchAllRecords (entityApi lg ''SalesReceipt''))
           \<and> payment_count (fd_debug d) = length (fetchAllRecords (entityApi lg ''Payment''))
           \<and> deposit_count (fd_debug d) = length (fetchAllRecords (entityApi lg ''Deposit''))
           \<and> refund_count (fd_debug d) = length (fetchAllRecords (entityApi lg ''RefundReceipt''))
           \<and> vendor_credit_count (fd_debug d) = length (fetchAllRecords (entityApi lg ''VendorCredit''))"
    by (simp add: fetchFinancialData_def Let_def)
qed

theorem fetch_failure_degrades_one_type_witness:
  "entityApi purchasesDown ''Purchase'' 1 = Failed
   \<and> fetchAllRecords (entityApi purchasesDown ''Purchase'') = []
   \<and> (1::nat) \<le> 9 \<and> fullPage (secondPageFails 1) \<and> secondPageFails (1 + maxResults * 1) = Failed
   \<and> fetchAllRecords secondPageFails = replicate 1000 blankEntity
   \<and> \<not> reportFails purchasesDown
   \<and> map_sum id (\<lambda>d. (purchase_count (fd_debug d), bill_count (fd_debug d)))
        (fetchFinancialData purchasesDown) = Inr (0, 1000)"
proof -
  have h1: "entityApi purchasesDown ''Purchase'' 1 = Failed"
    by (simp add: purchasesDown_def)
  have h2: "(1::nat) \<le> 9"
    by simp
  have h3: "fullPage (secondPageFails 1)"
    by (simp add: fullPage_def secondPageFails_def maxResults_def)
  have h3': "\<forall>j < 1. fullPage (secondPageFails (1 + maxResults * j))"
    using h3 by simp
  have h4: "secondPageFails (1 + maxResults * 1) = Failed"
    by (simp add: secondPageFails_def maxResults_def)
  have h5: "\<not> reportFails purchasesDown"
    by (simp add: purchasesDown_def)
  note th = fetch_failure_degrades_one_type
  from th [of "entityApi purchasesDown ''Purchase''"] h1
  have r1: "fetchAllRecords (entityApi purchasesDown ''Purchase'') = []"
    by blast
  from th [of secondPageFails] h2 h3' h4
  have "fetchAllRecords secondPageFails =
      concat (map (\<lambda>j. recordsOf (secondPageFails (1 + maxResults * j))) [0..<1])"
    by blast
  then have r2: "fetchAllRecords secondPageFails = replicate 1000 blankEntity"
    by (simp add: recordsOf_def secondPageFails_def)
  from th [of _ purchasesDown] h5
  obtain d where d: "fetchFinancialData purchasesDown = Inr d"
    "purchase_count (fd_debug d) = length (fetchAllRecords (entityApi purchasesDown ''Purchase''))"
    "bill_count (fd_debug d) = length (fetchAllRecords (entityApi purchasesDown ''Bill''))"
    by blast
  have bills: "entityApi purchasesDown ''Bill'' = secondPageFails"
    by (simp add: purchasesDown_def)
  have r3: "map_sum id (\<lambda>d. (purchase_count (fd_debug d), bill_count (fd_debug d)))
        (fetchFinancialData purchasesDown) = Inr (0, 1000)"
    using d by (simp add: r1 bills r2)
  from h1 r1 h2 h3 h4 r2 h5 r3 show ?thesis by blast
qed

subsection \<open>Purchases and bills: one transaction per qualifying line\<close>

lemma purchaseLine_qualifies: "(purchaseLine am line \<noteq> None) = qualifyingLine line"
  by (auto simp: purchaseLine_def qualifyingLine_def Let_def split: option.splits)

lemma purchaseLine_amount: "purchaseLine am line = Some ld \<Longrightarrow> ld_amount ld = li_Amount line"
  by (auto simp: purchaseLine_def Let_def split: option.splits)

lemma billLine_qualifies:
  "(billLine line \<noteq> None) = (li_AccountBasedExpenseLineDetail line \<noteq> None)"
  by (auto simp: billLine_def Let_def split: option.splits)

lemma billLine_amount: "billLine line = Some ld \<Longrightarrow> ld_amount ld = li_Amount line"
  by (auto simp: billLine_def Let_def split: option.splits)

lemma map_filter_amounts:
  assumes "\<And>x y. f x = Some y \<Longrightarrow> g y = h x"
  shows "map g (List.map_filter f xs) = map h (filter (\<lambda>x. f x \<noteq> None) xs)"
  using assms by (induction xs) (auto split: option.splits)

lemma purchaseTxn_amount: "t_amount (purchaseTxn p v m pt il) = negAbs (ld_amount (snd il))"
  by (cases il) (simp add: purchaseTxn_def)

lemma billTxn_amount: "t_amount (billTxn b v m il) = negAbs (ld_amount (snd il))"
  by (cases il) (simp add: billTxn_def)

lemma enumerate_amounts:
  assumes "\<And>il. g (f il) = h (snd il)"
  shows "map g (map f (enumerate n xs)) = map h xs"
  by (induction xs arbitrary: n) (simp_all add: assms)

lemma processPurchase_amounts:
  assumes "filter qualifyingLine (linesOf p) \<noteq> []"
  shows "map t_amount (processPurchase vm am p) =
         map (\<lambda>l. negAbs (li_Amount l)) (filter qualifyingLine (linesOf p))"
proof -
  define lds where "lds = List.map_filter (purchaseLine am) (linesOf p)"
  have "map ld_amount lds = map li_Amount (filter (\<lambda>l. purchaseLine am l \<noteq> None) (linesOf p))"
    unfolding lds_def by (rule map_filter_amounts) (rule purchaseLine_amount)
  then have amounts: "map ld_amount lds = map li_Amount (filter qualifyingLine (linesOf p))"
    unfolding purchaseLine_qualifies .
  then have "length lds = length (filter qualifyingLine (linesOf p))"
    using map_eq_imp_length_eq by blast
  with assms have some: "0 < length lds"
    by simp
  have "map t_amount (processPurchase vm am p) = map (\<lambda>ld. negAbs (ld_amount ld)) lds"
    using some
    by (simp add: processPurchase_def Let_def lds_def [symmetric] del: map_map)
       (rule enumerate_amounts, simp add: purchaseTxn_amount)
  also have "\<dots> = map negAbs (map ld_amount lds)"
    by simp
  finally show ?thesis
    by (simp add: amounts)
qed

lemma processBill_amounts:
  assumes "filter qualifyingLine (linesOf b) \<noteq> []"
    and "\<forall>l \<in> set (linesOf b). \<not> itemBasedOnly l"
  shows "map t_amount (processBill vm b) =
         map (\<lambda>l. negAbs (li_Amount l)) (filter qualifyingLine (linesOf b))"
proof -
  define lds where "lds = List.map_filter billLine (linesOf b)"
  have same: "filter (\<lambda>l. billLine l \<noteq> None) (linesOf b) = filter qualifyingLine (linesOf b)"
  proof (rule filter_cong [OF refl])
    fix l
    assume "l \<in> set (linesOf b)"
    with assms(2) have n: "\<not> itemBasedOnly l"
      by blast
    show "(billLine l \<noteq> None) = qualifyingLine l"
      using n unfolding billLine_qualifies qualifyingLine_def itemBasedOnly_def
      by (cases "li_AccountBasedExpenseLineDetail l") simp_all
  qed
  have "map ld_amount lds = map li_Amount (filter (\<lambda>l. billLine l \<noteq> None) (linesOf b))"
    unfolding lds_def by (rule map_filter_amounts) (rule billLine_amount)
  then have amounts: "map ld_amount lds = map li_Amount (filter qualifyingLine (linesOf b))"
    unfolding same .
  then have "length lds = length (filter qualifyingLine (linesOf b))"
    using map_eq_imp_length_eq by blast
  with assms have some: "0 < length lds"
    by simp
  have "map t_amount (processBill vm b) = map (\<lambda>ld. negAbs (ld_amount ld)) lds"
    using some
    by (simp add: processBill_def Let_def lds_def [symmetric] del: map_map)
       (rule enumerate_amounts, simp add: billTxn_amount)
  also have "\<dots> = map negAbs (map ld_amount lds)"
    by simp
  finally show ?thesis
    by (simp add: amounts)
qed

lemma strictlyNegative_negAbs: "strictlyNegative (negAbs a) \<longleftrightarrow> nonZero a"
  by (cases a) (auto simp: strictlyNegative_def negAbs_def nonZero_def)

lemma amounts_nth:
  assumes "map t_amount ts = map (\<lambda>l. negAbs (li_Amount l)) ls"
  shows "length ts = length ls \<and>
         (\<forall>i < length ls. t_amount (ts ! i) = negAbs (li_Amount (ls ! i))
            \<and> (strictlyNegative (t_amount (ts ! i)) \<longleftrightarrow> nonZero (li_Amount (ls ! i))))"
proof -
  have len: "length ts = length ls"
    using assms map_eq_imp_length_eq by blast
  have "t_amount (ts ! i) = negAbs (li_Amount (ls ! i))" if "i < length ls" for i
  proof -
    have "map t_amount ts ! i = map (\<lambda>l. negAbs (li_Amount l)) ls ! i"
      by (simp add: assms)
    with that len show ?thesis by simp
  qed
  with len show ?thesis
    by (simp add: strictlyNegative_negAbs)
qed

text \<open>
  C5, as stated, fails on a line of amount zero: the purchase has one qualifying line,
  one transaction is emitted, and its amount is 0, not below zero.
\<close>

theorem purchase_zero_line_counterexample:
  "filter qualifyingLine (linesOf (purchaseOf [expenseLine 0])) = [expenseLine 0]
   \<and> map t_amount (processPurchase Map.empty Map.empty (purchaseOf [expenseLine 0])) = [Some 0]
   \<and> \<not> strictlyNegative (Some 0)"
proof -
  have q: "filter qualifyingLine (linesOf (purchaseOf [expenseLine 0])) = [expenseLine 0]"
    by (simp add: linesOf_def purchaseOf_def qualifyingLine_def expenseLine_def)
  then have "filter qualifyingLine (linesOf (purchaseOf [expenseLine 0])) \<noteq> []"
    by simp
  from processPurchase_amounts [OF this]
  have "map t_amount (processPurchase Map.empty Map.empty (purchaseOf [expenseLine 0])) = [Some 0]"
    by (simp add: q) (simp add: expenseLine_def negAbs_def)
  with q show ?thesis
    by (simp add: strictlyNegative_def)
qed

text \<open>
  C5, amended. For every Purchase record with at least one qualifying line (a line
  carrying an account-based or item-based expense detail), and for every Bill record
  with at least one qualifying line and no line that is item-based only, the normalizer
  emits exactly one Transaction per qualifying line, in order; the amount of each is
  minus the absolute value of its line's amount, which is strictly below zero exactly
  when the line's amount is present and not zero.
\<close>

theorem one_transaction_per_qualifying_line:
  "(filter qualifyingLine (linesOf p) \<noteq> [] \<longrightarrow>
      length (processPurchase vm am p) = length (filter qualifyingLine (linesOf p))
      \<and> (\<forall>i < length (filter qualifyingLine (linesOf p)).
            t_amount (processPurchase vm am p ! i) =
              negAbs (li_Amount (filter qualifyingLine (linesOf p) ! i))
            \<and> (strictlyNegative (t_amount (processPurchase vm am p ! i)) \<longleftrightarrow>
                 nonZero (li_Amount (filter qualifyingLine (linesOf p) ! i)))))
   \<and> (filter qualifyingLine (linesOf b) \<noteq> [] \<and> (\<forall>l \<in> set (linesOf b). \<not> itemBasedOnly l) \<longrightarrow>
      length (processBill vm b) = length (filter qualifyingLine (linesOf b))
      \<and> (\<forall>i < length (filter qualifyingLine (linesOf b)).
            t_amount (processBill vm b ! i) =
              negAbs (li_Amount (filter qualifyingLine (linesOf b) ! i))
            \<and> (strictlyNegative (t_amount (processBill vm b ! i)) \<longleftrightarrow>
                 nonZero (li_Amount (filter qualifyingLine (linesOf b) ! i)))))"
proof (rule conjI; rule impI)
  assume "filter qualifyingLine (linesOf p) \<noteq> []"
  then have "map t_amount (processPurchase vm am p) =
      map (\<lambda>l. negAbs (li_Amount l)) (filter qualifyingLine (linesOf p))"
    by (rule processPurchase_amounts)
  then show "length (processPurchase vm am p) = length (filter qualifyingLine (linesOf p))
      \<and> (\<forall>i < length (filter qualifyingLine (linesOf p)).
            t_amount (processPurchase vm am p ! i) =
              negAbs (li_Amount (filter qualifyingLine (linesOf p) ! i))
            \<and> (strictlyNegative (t_amount (processPurchase vm am p ! i)) \<longleftrightarrow>
                 nonZero (li_Amount (filter qualifyingLine (linesOf p) ! i))))"
    by (rule amounts_nth)
next
  assume "filter qualifyingLine (linesOf b) \<noteq> [] \<and> (\<forall>l \<in> set (linesOf b). \<not> itemBasedOnly l)"
  then have "map t_amount (processBill vm b) =
      map (\<lambda>l. negAbs (li_Amount l)) (filter qualifyingLine (linesOf b))"
    by (intro processBill_amounts) auto
  then show "length (processBill vm b) = length (filter qualifyingLine (linesOf b))
      \<and> (\<forall>i < length (filter qualifyingLine (linesOf b)).
            t_amount (processBill vm b ! i) =
              negAbs (li_Amount (filter qualifyingLine (linesOf b) ! i))
            \<and> (strictlyNegative (t_amount (processBill vm b ! i)) \<longleftrightarrow>
                 nonZero (li_Amount (filter qualifyingLine (linesOf b) ! i))))"
    by (rule amounts_nth)
qed

theorem one_transaction_per_qualifying_line_witness:
  "filter qualifyingLine (linesOf (purchaseOf [expenseLine 50, expenseLine (-10)])) =
       [expenseLine 50, expenseLine (-10)]
   \<and> length (processPurchase Map.empty Map.empty (purchaseOf [expenseLine 50, expenseLine (-10)])) = 2
   \<and> t_amount (processPurchase Map.empty Map.empty (purchaseOf [expenseLine 50, expenseLine (-10)]) ! 0) = Some (-50)
   \<and> t_amount (processPurchase Map.empty Map.empty (purchaseOf [expenseLine 50, expenseLine (-10)]) ! 1) = Some (-10)
   \<and> length (processBill Map.empty (purchaseOf [expenseLine 50, expenseLine (-10)])) = 2
   \<and> t_amount (processBill Map.empty (purchaseOf [expenseLine 50, expenseLine (-10)]) ! 1) = Some (-10)"
proof -
  define p where "p = purchaseOf [expenseLine 50, expenseLine (-10)]"
  have q: "filter qualifyingLine (linesOf p) = [expenseLine 50, expenseLine (-10)]"
    by (simp add: p_def linesOf_def purchaseOf_def qualifyingLine_def expenseLine_def)
  have ne: "filter qualifyingLine (linesOf p) \<noteq> []"
    by (simp add: q)
  have io: "\<forall>l \<in> set (linesOf p). \<not> itemBasedOnly l"
    by (simp add: p_def linesOf_def purchaseOf_def itemBasedOnly_def expenseLine_def)
  note th = one_transaction_per_qualifying_line [of p Map.empty Map.empty p]
  from th ne have pl: "length (processPurchase Map.empty Map.empty p) = 2"
    and pa: "\<forall>i < 2. t_amount (processPurchase Map.empty Map.empty p ! i) =
              negAbs (li_Amount ([expenseLine 50, expenseLine (-10)] ! i))"
    by (simp_all add: q)
  from th ne io have bl: "length (processBill Map.empty p) = 2"
    and ba: "\<forall>i < 2. t_amount (processBill Map.empty p ! i) =
              negAbs (li_Amount ([expenseLine 50, expenseLine (-10)] ! i))"
    by (simp_all add: q)
  from pa have p0: "t_amount (processPurchase Map.empty Map.empty p ! 0) = Some (-50)"
    by (simp add: expenseLine_def negAbs_def)
  from pa have p1: "t_amount (processPurchase Map.empty Map.empty p ! 1) = Some (-10)"
    by (simp add: expenseLine_def negAbs_def)
  from ba have b1: "t_amount (processBill Map.empty p ! 1) = Some (-10)"
    by (simp add: expenseLine_def negAbs_def)
  from q pl p0 p1 bl b1 show ?thesis
    unfolding p_def by simp
qed

subsection \<open>Journal entries: excluded lines and the payroll tag\<close>

lemma journalKind_balance_sheet:
  "acctType \<in> set balanceSheetTypes \<Longrightarrow> journalKind acctType postingType amount = None"
  by (auto simp: journalKind_def balanceSheetTypes_def expenseLike_def incomeLike_def)

lemma journalLine_Some:
  assumes "journalLine am je (idx, line) = Some t"
  obtains d where "li_JournalEntryLineDetail line = Some d"
    and "journalKind (journalAcctType am d) (jd_PostingType d)
           (case li_Amount line of None \<Rightarrow> 0 | Some a \<Rightarrow> a) \<noteq> None"
    and "t_isPayroll t = Some (journalIsPayroll (journalAcctName am d) (journalMemo je))"
    and "t_category t =
           (if journalIsPayroll (journalAcctName am d) (journalMemo je) then ''Payroll Expenses''
            else journalAcctName am d)"
  using assms
  by (auto simp: journalLine_def Let_def split: option.splits if_splits prod.splits)

lemma map_filter_enumerate_set:
  "t \<in> set (List.map_filter f (enumerate n xs)) \<Longrightarrow>
   \<exists>i < length xs. f (n + i, xs ! i) = Some t"
proof (induction xs arbitrary: n)
  case Nil
  then show ?case by simp
next
  case (Cons x xs)
  show ?case
  proof (cases "f (n, x) = Some t")
    case True
    then have "f (n + 0, (x # xs) ! 0) = Some t" by simp
    then show ?thesis by blast
  next
    case False
    with Cons.prems have "t \<in> set (List.map_filter f (enumerate (Suc n) xs))"
      by (auto split: option.splits)
    from Cons.IH [OF this] obtain i where "i < length xs" "f (Suc n + i, xs ! i) = Some t"
      by blast
    then have "Suc i < length (x # xs)" "f (n + Suc i, (x # xs) ! Suc i) = Some t"
      by simp_all
    then show ?thesis by blast
  qed
qed

text \<open>
  C6, amended. A journal-entry line whose account type, as the account map resolves it,
  is one of the five types the normalizer lists (Other Current Liability, Long Term
  Liability, Bank, Other Current Asset, Fixed Asset) emits no Transaction, and every
  Transaction a journal entry emits comes from one of its lines whose account type is
  not one of them. A debit line of non-zero amount on a type that is neither listed
  nor expense-like nor income-like (Other Asset, Accounts Payable, Credit Card, or an
  account the map does not resolve) is emitted as an expense of minus its absolute
  amount.
\<close>

theorem listed_balance_sheet_lines_excluded:
  "(li_JournalEntryLineDetail line = Some d \<and> journalAcctType am d \<in> set balanceSheetTypes \<longrightarrow>
      journalLine am je (idx, line) = None)
   \<and> (li_JournalEntryLineDetail line = Some d \<and> li_Amount line = Some a \<and> a \<noteq> 0
        \<and> journalAcctType am d \<notin> set (expenseLike @ incomeLike @ balanceSheetTypes)
        \<and> jd_PostingType d = Some ''Debit'' \<longrightarrow>
      (\<exists>t. journalLine am je (idx, line) = Some t \<and> t_type t = ''expense''
           \<and> t_amount t = Some (- \<bar>a\<bar>)))
   \<and> (\<forall>t \<in> set (processJournalEntry am je).
        \<exists>i < length (linesOf je). \<exists>d'.
          journalLine am je (i, linesOf je ! i) = Some t
          \<and> li_JournalEntryLineDetail (linesOf je ! i) = Some d'
          \<and> journalAcctType am d' \<notin> set balanceSheetTypes)"
proof (intro conjI)
  show "li_JournalEntryLineDetail line = Some d \<and> journalAcctType am d \<in> set balanceSheetTypes \<longrightarrow>
      journalLine am je (idx, line) = None"
    by (simp add: journalLine_def Let_def journalKind_balance_sheet)
next
  show "li_JournalEntryLineDetail line = Some d \<and> li_Amount line = Some a \<and> a \<noteq> 0
        \<and> journalAcctType am d \<notin> set (expenseLike @ incomeLike @ balanceSheetTypes)
        \<and> jd_PostingType d = Some ''Debit'' \<longrightarrow>
      (\<exists>t. journalLine am je (idx, line) = Some t \<and> t_type t = ''expense''
           \<and> t_amount t = Some (- \<bar>a\<bar>))"
    by (simp add: journalLine_def Let_def journalKind_def)
next
  show "\<forall>t \<in> set (processJournalEntry am je).
        \<exists>i < length (linesOf je). \<exists>d'.
          journalLine am je (i, linesOf je ! i) = Some t
          \<and> li_JournalEntryLineDetail (linesOf je ! i) = Some d'
          \<and> journalAcctType am d' \<notin> set balanceSheetTypes"
  proof
    fix t
    assume "t \<in> set (processJournalEntry am je)"
    then obtain i where i: "i < length (linesOf je)"
      and some: "journalLine am je (i, linesOf je ! i) = Some t"
      unfolding processJournalEntry_def
      using map_filter_enumerate_set [of t "journalLine am je" 0 "linesOf je"] by auto
    from some obtain d' where d': "li_JournalEntryLineDetail (linesOf je ! i) = Some d'"
      and kind: "journalKind (journalAcctType am d') (jd_PostingType d')
           (case li_Amount (linesOf je ! i) of None \<Rightarrow> 0 | Some a \<Rightarrow> a) \<noteq> None"
      by (rule journalLine_Some)
    have "journalAcctType am d' \<notin> set balanceSheetTypes"
    proof
      assume "journalAcctType am d' \<in> set balanceSheetTypes"
      then have "journalKind (journalAcctType am d') (jd_PostingType d')
           (case li_Amount (linesOf je ! i) of None \<Rightarrow> 0 | Some a \<Rightarrow> a) = None"
        by (rule journalKind_balance_sheet)
      with kind show False by simp
    qed
    with i some d' show "\<exists>i < length (linesOf je). \<exists>d'.
          journalLine am je (i, linesOf je ! i) = Some t
          \<and> li_JournalEntryLineDetail (linesOf je ! i) = Some d'
          \<and> journalAcctType am d' \<notin> set balanceSheetTypes"
      by blast
  qed
qed

lemma chart_types:
  "journalAcctType (buildAccountMap chart)
      \<lparr> jd_AccountRef = Some \<lparr> ref_value = Some ''35'', ref_name = Some ''Checking'' \<rparr>,
        jd_PostingType = Some ''Credit'' \<rparr> = ''Bank''"
  "journalAcctType (buildAccountMap chart)
      \<lparr> jd_AccountRef = Some \<lparr> ref_value = Some ''88'', ref_name = Some ''Security Deposits'' \<rparr>,
        jd_PostingType = Some ''Debit'' \<rparr> = ''Other Asset''"
  "journalAcctType (buildAccountMap chart)
      \<lparr> jd_AccountRef = Some \<lparr> ref_value = Some ''70'', ref_name = Some ''Misc Expense'' \<rparr>,
        jd_PostingType = Some ''Debit'' \<rparr> = ''Expense''"
  by (simp_all add: journalAcctType_def buildAccountMap_def chart_def refValue_def jsString_def
      orDefault_def)

lemma salaryEntry_emits:
  "map (\<lambda>t. (t_isPayroll t, t_category t, t_amount t))
     (processJournalEntry (buildAccountMap chart) salaryEntry) =
   [(Some False, ''Misc Expense'', Some (-100))]"
  by (simp add: processJournalEntry_def linesOf_def salaryEntry_def blankEntity_def
      journalLineOn_def journalLine_def chart_types journalKind_def expenseLike_def
      incomeLike_def balanceSheetTypes_def journalIsPayroll_def journalAcctName_def
      journalMemo_def refName_def orElse_def orDefault_def truthy_def toLowerCase_def
      lowerChar_def startsWith_def Let_def)

text \<open>
  C6, as stated, fails for an asset account of a type the normalizer does not list: the
  debit of 500 to Security Deposits, an account of type Other Asset, is emitted as an
  expense of -500.
\<close>

theorem other_asset_line_emitted_counterexample:
  "journalAcctType (buildAccountMap chart)
      \<lparr> jd_AccountRef = Some \<lparr> ref_value = Some ''88'', ref_name = Some ''Security Deposits'' \<rparr>,
        jd_PostingType = Some ''Debit'' \<rparr> = ''Other Asset''
   \<and> map (\<lambda>t. (t_id t, t_type t, t_category t, t_amount t))
       (processJournalEntry (buildAccountMap chart) depositEntry) =
     [(''journal-1-0'', ''expense'', ''Security Deposits'', Some (-500))]"
proof -
  have "map (\<lambda>t. (t_id t, t_type t, t_category t, t_amount t))
       (processJournalEntry (buildAccountMap chart) depositEntry) =
     [(''journal-1-0'', ''expense'', ''Security Deposits'', Some (-500))]"
    by (simp add: processJournalEntry_def linesOf_def depositEntry_def blankEntity_def
      journalLineOn_def journalLine_def chart_types journalKind_def expenseLike_def
      incomeLike_def balanceSheetTypes_def journalIsPayroll_def journalAcctName_def
      journalMemo_def refName_def orElse_def orDefault_def truthy_def toLowerCase_def
      lowerChar_def startsWith_def jsString_def showDigits.simps Let_def)
  with chart_types(2) show ?thesis by blast
qed

theorem listed_balance_sheet_lines_excluded_witness:
  "li_JournalEntryLineDetail (journalLineOn ''35'' ''Checking'' ''Credit'' 100) =
      Some \<lparr> jd_AccountRef = Some \<lparr> ref_value = Some ''35'', ref_name = Some ''Checking'' \<rparr>,
             jd_PostingType = Some ''Credit'' \<rparr>
   \<and> journalAcctType (buildAccountMap chart)
        \<lparr> jd_AccountRef = Some \<lparr> ref_value = Some ''35'', ref_name = Some ''Checking'' \<rparr>,
          jd_PostingType = Some ''Credit'' \<rparr> \<in> set balanceSheetTypes
   \<and> journalLine (buildAccountMap chart) salaryEntry
        (1, journalLineOn ''35'' ''Checking'' ''Credit'' 100) = None
   \<and> ''Other Asset'' \<notin> set (expenseLike @ incomeLike @ balanceSheetTypes)
   \<and> map_option (\<lambda>t. (t_type t, t_amount t))
        (journalLine (buildAccountMap chart) depositEntry
           (0, journalLineOn ''88'' ''Security Deposits'' ''Debit'' 500)) =
       Some (''expense'', Some (-500))
   \<and> length (processJournalEntry (buildAccountMap chart) salaryEntry) = 1"
proof -
  define bank where "bank = \<lparr> jd_AccountRef = Some \<lparr> ref_value = Some ''35'', ref_name = Some ''Checking'' \<rparr>,
             jd_PostingType = Some ''Credit'' \<rparr>"
  define asset where "asset = \<lparr> jd_AccountRef = Some \<lparr> ref_value = Some ''88'', ref_name = Some ''Security Deposits'' \<rparr>,
             jd_PostingType = Some ''Debit'' \<rparr>"
  have h1: "li_JournalEntryLineDetail (journalLineOn ''35'' ''Checking'' ''Credit'' 100) = Some bank"
    by (simp add: journalLineOn_def bank_def)
  have h2: "journalAcctType (buildAccountMap chart) bank \<in> set balanceSheetTypes"
    by (simp add: bank_def chart_types balanceSheetTypes_def)
  have g1: "li_JournalEntryLineDetail (journalLineOn ''88'' ''Security Deposits'' ''Debit'' 500) = Some asset"
    "li_Amount (journalLineOn ''88'' ''Security Deposits'' ''Debit'' 500) = Some 500"
    "jd_PostingType asset = Some ''Debit''"
    by (simp_all add: journalLineOn_def asset_def)
  have g2: "''Other Asset'' \<notin> set (expenseLike @ incomeLike @ balanceSheetTypes)"
    by (simp add: expenseLike_def incomeLike_def balanceSheetTypes_def)
  have g3: "journalAcctType (buildAccountMap chart) asset = ''Other Asset''"
    by (simp add: asset_def chart_types)
  note th = listed_balance_sheet_lines_excluded [where am = "buildAccountMap chart"]
  from th [where line = "journalLineOn ''35'' ''Checking'' ''Credit'' 100"
      and je = salaryEntry and idx = 1 and d = bank] h1 h2
  have r: "journalLine (buildAccountMap chart) salaryEntry
        (1, journalLineOn ''35'' ''Checking'' ''Credit'' 100) = None"
    by blast
  from th [where line = "journalLineOn ''88'' ''Security Deposits'' ''Debit'' 500"
      and je = depositEntry and idx = 0 and d = asset and a = 500] g1 g2 g3
  have e: "map_option (\<lambda>t. (t_type t, t_amount t))
        (journalLine (buildAccountMap chart) depositEntry
           (0, journalLineOn ''88'' ''Security Deposits'' ''Debit'' 500)) =
       Some (''expense'', Some (-500))"
    by auto
  have l: "length (processJournalEntry (buildAccountMap chart) salaryEntry) = 1"
    using salaryEntry_emits map_eq_imp_length_eq by fastforce
  from h1 h2 r g2 e l show ?thesis
    unfolding bank_def by blast
qed

text \<open>
  C7, as stated, fails for the memo keywords wage and salary: the memo of the entry is
  "Monthly salary run", its expense line is on the account Misc Expense, and the
  Transaction emitted is neither tagged isPayroll nor recategorized.
\<close>

theorem memo_salary_not_tagged_counterexample:
  "mentionsAny (journalMemo salaryEntry) payrollKeywords
   \<and> map (\<lambda>t. (t_isPayroll t, t_category t, t_amount t))
       (processJournalEntry (buildAccountMap chart) salaryEntry) =
     [(Some False, ''Misc Expense'', Some (-100))]"
proof -
  have "mentionsAny (journalMemo salaryEntry) payrollKeywords"
    by (simp add: mentionsAny_def journalMemo_def salaryEntry_def blankEntity_def
        payrollKeywords_def orElse_def orDefault_def truthy_def toLowerCase_def lowerChar_def
        startsWith_def)
  with salaryEntry_emits show ?thesis by blast
qed

lemma journalIsPayroll_keywords:
  "journalIsPayroll acctName memo \<longleftrightarrow>
     mentionsAny acctName payrollKeywords \<or> mentionsAny memo memoKeywords"
  by (auto simp: journalIsPayroll_def mentionsAny_def payrollKeywords_def memoKeywords_def)

lemma payroll_label_mentions_payroll: "mentionsAny ''Payroll Expenses'' payrollKeywords"
  by (simp add: mentionsAny_def payrollKeywords_def toLowerCase_def lowerChar_def startsWith_def)

text \<open>
  C7, amended. Every emitted JournalEntry-derived Transaction is tagged isPayroll, and
  its category is the fixed label "Payroll Expenses" (otherwise the account name), if
  and only if the account name contains, case-insensitively, one of "payroll", "wage",
  "salary", "paychex", or the record memo (the private note, else the document number)
  contains "payroll" or "paychex".
\<close>

theorem journal_payroll_tag:
  assumes "journalLine am je (idx, line) = Some t"
    and "li_JournalEntryLineDetail line = Some d"
  shows "(t_isPayroll t = Some True \<longleftrightarrow>
            mentionsAny (journalAcctName am d) payrollKeywords \<or>
            mentionsAny (journalMemo je) memoKeywords)
       \<and> (t_isPayroll t = Some False \<longleftrightarrow>
            \<not> (mentionsAny (journalAcctName am d) payrollKeywords \<or>
               mentionsAny (journalMemo je) memoKeywords))
       \<and> (t_category t = ''Payroll Expenses'' \<longleftrightarrow> t_isPayroll t = Some True)
       \<and> (t_isPayroll t = Some False \<longrightarrow> t_category t = journalAcctName am d)"
proof -
  from assms(1) obtain d' where d': "li_JournalEntryLineDetail line = Some d'"
    and tag: "t_isPayroll t = Some (journalIsPayroll (journalAcctName am d') (journalMemo je))"
    and cat: "t_category t =
           (if journalIsPayroll (journalAcctName am d') (journalMemo je) then ''Payroll Expenses''
            else journalAcctName am d')"
    by (rule journalLine_Some)
  from d' assms(2) have same: "d' = d"
    by simp
  show ?thesis
  proof (cases "journalIsPayroll (journalAcctName am d) (journalMemo je)")
    case True
    with tag cat same show ?thesis
      by (simp add: journalIsPayroll_keywords)
  next
    case False
    then have "\<not> mentionsAny (journalAcctName am d) payrollKeywords"
      by (simp add: journalIsPayroll_keywords)
    with payroll_label_mentions_payroll have "journalAcctName am d \<noteq> ''Payroll Expenses''"
      by metis
    with False tag cat same show ?thesis
      by (simp add: journalIsPayroll_keywords)
  qed
qed

theorem journal_payroll_tag_witness:
  "journalLine (buildAccountMap chart) salaryEntry
       (0, journalLineOn ''70'' ''Misc Expense'' ''Debit'' 100) \<noteq> None
   \<and> map (\<lambda>t. (t_isPayroll t, t_category t))
        (List.map_filter (journalLine (buildAccountMap chart) salaryEntry)
           [(0, journalLineOn ''70'' ''Misc Expense'' ''Debit'' 100)]) =
       [(Some False, ''Misc Expense'')]
   \<and> \<not> mentionsAny ''Misc Expense'' payrollKeywords
   \<and> \<not> mentionsAny (journalMemo salaryEntry) memoKeywords"
proof -
  define d where "d = \<lparr> jd_AccountRef = Some \<lparr> ref_value = Some ''70'', ref_name = Some ''Misc Expense'' \<rparr>,
        jd_PostingType = Some ''Debit'' \<rparr>"
  have h2: "li_JournalEntryLineDetail (journalLineOn ''70'' ''Misc Expense'' ''Debit'' 100) = Some d"
    by (simp add: journalLineOn_def d_def)
  have name: "journalAcctName (buildAccountMap chart) d = ''Misc Expense''"
    by (simp add: journalAcctName_def d_def refName_def orElse_def orDefault_def truthy_def)
  have n1: "\<not> mentionsAny ''Misc Expense'' payrollKeywords"
    by (simp add: mentionsAny_def payrollKeywords_def toLowerCase_def lowerChar_def startsWith_def)
  have n2: "\<not> mentionsAny (journalMemo salaryEntry) memoKeywords"
    by (simp add: mentionsAny_def journalMemo_def salaryEntry_def blankEntity_def
        memoKeywords_def orElse_def orDefault_def truthy_def toLowerCase_def lowerChar_def
        startsWith_def)
  obtain t where h1: "journalLine (buildAccountMap chart) salaryEntry
       (0, journalLineOn ''70'' ''Misc Expense'' ''Debit'' 100) = Some t"
    by (simp add: journalLine_def journalLineOn_def chart_types journalKind_def expenseLike_def Let_def)
  from journal_payroll_tag [OF h1 h2] n1 n2
  have "t_isPayroll t = Some False" "t_category t = ''Misc Expense''"
    by (simp_all add: name)
  with h1 n1 n2 show ?thesis
    by simp
qed

subsection \<open>The bank feed: amounts and sign convention\<close>

lemma mapItem_amount:
  "bt_amount (mapItem account t) = px_amount t
   \<and> (bt_type (mapItem account t) = ''expense'' \<longleftrightarrow> 0 < px_amount t)
   \<and> (bt_type (mapItem account t) = ''income'' \<longleftrightarrow> px_amount t \<le> 0)"
  by (simp add: mapItem_def)

lemma ingest_items:
  "x \<in> set (ingest account items) \<Longrightarrow>
   \<exists>t \<in> set (itemsOf items). notExcluded account t \<and> x = mapItem account t"
  by (auto simp: ingest_def)

lemma syncAccounts_items:
  "x \<in> set (fst (syncAccounts api now accounts)) \<Longrightarrow>
   \<exists>account \<in> set accounts. \<exists>added cur. api account = SyncData added cur
      \<and> x \<in> set (ingest account added)"
proof (induction accounts)
  case Nil
  then show ?case by simp
next
  case (Cons a accounts)
  show ?case
  proof (cases "x \<in> set (fst (syncAccounts api now accounts))")
    case True
    from Cons.IH [OF this] show ?thesis by auto
  next
    case False
    with Cons.prems obtain added cur where "api a = SyncData added cur" "x \<in> set (ingest a added)"
      by (cases "api a") (auto simp: case_prod_beta)
    then show ?thesis by auto
  qed
qed

lemma pageLoop_items:
  assumes a: "pageLoop account api n offset acc = Some r"
  shows "\<forall>x \<in> set (fst r). x \<in> set acc \<or>
           (\<exists>k off txs tot. api k off = GetData txs tot \<and> x \<in> set (ingest account txs))"
proof (rule pageLoop.raw_induct
    [where P = "\<lambda>account api n offset acc r. \<forall>x \<in> set (fst r). x \<in> set acc \<or>
           (\<exists>k off txs tot. api k off = GetData txs tot \<and> x \<in> set (ingest account txs))",
     OF _ a], goal_cases)
  case (1 pl account api n offset acc r)
  show ?case
  proof (cases "api n offset")
    case (GetThrows msg)
    with 1(2) show ?thesis by auto
  next
    case (GetError msg)
    with 1(2) show ?thesis by auto
  next
    case (GetData txs tot)
    have new: "\<forall>x \<in> set (acc @ ingest account txs). x \<in> set acc \<or>
           (\<exists>k off txs tot. api k off = GetData txs tot \<and> x \<in> set (ingest account txs))"
      using GetData by auto
    show ?thesis
    proof (cases "pl account api (Suc n) (offset + length (itemsOf txs)) (acc @ ingest account txs) = Some r
        \<and> \<not> 5000 \<le> offset + length (itemsOf txs)
        \<and> (case tot of None \<Rightarrow> False | Some t \<Rightarrow> int (offset + length (itemsOf txs)) < t)")
      case True
      then have "\<forall>x \<in> set (fst r). x \<in> set (acc @ ingest account txs) \<or>
           (\<exists>k off txs tot. api k off = GetData txs tot \<and> x \<in> set (ingest account txs))"
        using 1(1) by blast
      with new show ?thesis by blast
    next
      case False
      with 1(2) GetData have "fst r = acc @ ingest account txs"
        by (auto simp: Let_def split: if_splits)
      with new show ?thesis by simp
    qed
  qed
qed

lemma listAccounts_items:
  "listAccounts api now accounts = Some (txns, errs, accts) \<Longrightarrow> x \<in> set txns \<Longrightarrow>
   \<exists>account \<in> set accounts. \<exists>k off txs tot. api account k off = GetData txs tot
      \<and> x \<in> set (ingest account txs)"
proof (induction accounts arbitrary: txns errs accts)
  case Nil
  then show ?case by simp
next
  case (Cons a accounts)
  from Cons.prems(1) obtain t1 ending t2 e2 a2 where
    loop: "pageLoop a (api a) 0 0 [] = Some (t1, ending)"
    and rest: "listAccounts api now accounts = Some (t2, e2, a2)"
    and txns: "txns = t1 @ t2"
    by (auto split: option.splits loopEnd.splits)
  show ?case
  proof (cases "x \<in> set t1")
    case True
    with pageLoop_items [OF loop] show ?thesis by auto
  next
    case False
    with Cons.prems(2) txns have "x \<in> set t2" by simp
    from Cons.IH [OF rest this] show ?thesis by auto
  qed
qed

text \<open>
  C1, as stated, fails: the sync handler stores the money-out item of 20545.04 with
  that same positive amount, not a strictly negative one.
\<close>

theorem sync_keeps_positive_amount_counterexample:
  "0 < px_amount paychexItem
   \<and> map (\<lambda>x. (bt_description x, bt_amount x, bt_type x))
       (case fst (plaidSync True syncOnce ''2025-02-01'' [wellsFargo]) of
          Json body \<Rightarrow> sb_transactions body
        | Status code msg \<Rightarrow> []) =
     [(Some ''PAYCHEX'', 20545.04, ''expense''), (Some ''REFUND'', - 12.5, ''income'')]
   \<and> \<not> (20545.04 :: real) < 0"
  by (simp add: plaidSync_def syncOnce_def ingest_def itemsOf_def notExcluded_def mapItem_def
      paychexItem_def refundItem_def wellsFargo_def)

text \<open>
  C1, amended. Every transaction the sync and list operations return is an upstream
  item of a linked institution, outside its excluded accounts, stored with the upstream
  amount unchanged (positive = money out); the direction is recorded in its type,
  expense exactly when the amount is positive and income otherwise.
\<close>

theorem bank_feed_amounts_kept:
  "(plaidSync configured sapi now accounts = (Json body, accts) \<longrightarrow>
      (\<forall>x \<in> set (sb_transactions body).
         \<exists>account \<in> set accounts. \<exists>added cur. \<exists>t \<in> set (itemsOf added).
           sapi account = SyncData added cur \<and> notExcluded account t \<and> x = mapItem account t
           \<and> bt_amount x = px_amount t
           \<and> (bt_type x = ''expense'' \<longleftrightarrow> 0 < px_amount t)
           \<and> (bt_type x = ''income'' \<longleftrightarrow> px_amount t \<le> 0)))
   \<and> (plaidTransactions configured gapi dateValue now accounts = Some (Json lbody, accts') \<longrightarrow>
      (\<forall>x \<in> set (tb_transactions lbody).
         \<exists>account \<in> set accounts. \<exists>k off txs tot. \<exists>t \<in> set (itemsOf txs).
           gapi account k off = GetData txs tot \<and> notExcluded account t \<and> x = mapItem account t
           \<and> bt_amount x = px_amount t
           \<and> (bt_type x = ''expense'' \<longleftrightarrow> 0 < px_amount t)
           \<and> (bt_type x = ''income'' \<longleftrightarrow> px_amount t \<le> 0)))"
proof (rule conjI; rule impI; rule ballI)
  fix x
  assume s: "plaidSync configured sapi now accounts = (Json body, accts)"
    and x: "x \<in> set (sb_transactions body)"
  from s have "sb_transactions body = fst (syncAccounts sapi now accounts)"
    by (auto simp: plaidSync_def case_prod_beta split: if_splits)
  with x have "x \<in> set (fst (syncAccounts sapi now accounts))"
    by simp
  from syncAccounts_items [OF this] obtain account added cur where
    acc: "account \<in> set accounts" "sapi account = SyncData added cur"
    and "x \<in> set (ingest account added)"
    by blast
  from ingest_items [OF this(3)] obtain t where
    "t \<in> set (itemsOf added)" "notExcluded account t" "x = mapItem account t"
    by blast
  with acc mapItem_amount [of account t]
  show "\<exists>account \<in> set accounts. \<exists>added cur. \<exists>t \<in> set (itemsOf added).
           sapi account = SyncData added cur \<and> notExcluded account t \<and> x = mapItem account t
           \<and> bt_amount x = px_amount t
           \<and> (bt_type x = ''expense'' \<longleftrightarrow> 0 < px_amount t)
           \<and> (bt_type x = ''income'' \<longleftrightarrow> px_amount t \<le> 0)"
    by blast
next
  fix x
  assume s: "plaidTransactions configured gapi dateValue now accounts = Some (Json lbody, accts')"
    and x: "x \<in> set (tb_transactions lbody)"
  show "\<exists>account \<in> set accounts. \<exists>k off txs tot. \<exists>t \<in> set (itemsOf txs).
           gapi account k off = GetData txs tot \<and> notExcluded account t \<and> x = mapItem account t
           \<and> bt_amount x = px_amount t
           \<and> (bt_type x = ''expense'' \<longleftrightarrow> 0 < px_amount t)
           \<and> (bt_type x = ''income'' \<longleftrightarrow> px_amount t \<le> 0)"
  proof (cases "accounts = []")
    case True
    with s x show ?thesis
      by (auto simp: plaidTransactions_def split: if_splits)
  next
    case False
    with s obtain txns errs where
      l: "listAccounts gapi now accounts = Some (txns, errs, accts')"
      and b: "tb_transactions lbody = sort_key (\<lambda>x. - dateValue (bt_date x)) txns"
      by (auto simp: plaidTransactions_def split: if_splits option.splits)
    from b x have "x \<in> set txns"
      by simp
    from listAccounts_items [OF l this] obtain account k off txs tot where
      acc: "account \<in> set accounts" "gapi account k off = GetData txs tot"
      and "x \<in> set (ingest account txs)"
      by blast
    from ingest_items [OF this(3)] obtain t where
      "t \<in> set (itemsOf txs)" "notExcluded account t" "x = mapItem account t"
      by blast
    with acc mapItem_amount [of account t] show ?thesis
      by blast
  qed
qed

lemma syncOnce_reply:
  "plaidSync True syncOnce ''2025-02-01'' [wellsFargo] =
     (Json \<lparr> sb_success = True, sb_transactions_synced = 2,
              sb_transactions = [mapItem wellsFargo paychexItem, mapItem wellsFargo refundItem],
              sb_errors = None \<rparr>,
      [wellsFargo\<lparr> in_cursor := Some ''cursor-1'', in_last_synced := Some ''2025-02-01'' \<rparr>])"
  by (simp add: plaidSync_def syncOnce_def ingest_def itemsOf_def notExcluded_def
      paychexItem_def refundItem_def wellsFargo_def)

lemma onePage_loop:
  "pageLoop wellsFargo (onePage wellsFargo) 0 0 [] =
     Some ([mapItem wellsFargo paychexItem, mapItem wellsFargo refundItem], Finished)"
  by (subst pageLoop.simps)
     (simp add: onePage_def ingest_def itemsOf_def notExcluded_def paychexItem_def
        refundItem_def wellsFargo_def)

lemma onePage_reply:
  "plaidTransactions True onePage (\<lambda>d. 0) ''2025-02-01'' [wellsFargo] =
     Some (Json \<lparr> tb_transactions = [mapItem wellsFargo paychexItem, mapItem wellsFargo refundItem],
                   tb_count = Some 2, tb_errors = None, tb_message = None \<rparr>,
           [wellsFargo\<lparr> in_last_synced := Some ''2025-02-01'' \<rparr>])"
  by (simp add: plaidTransactions_def onePage_loop)

theorem bank_feed_amounts_kept_witness:
  "plaidSync True syncOnce ''2025-02-01'' [wellsFargo] =
     (Json \<lparr> sb_success = True, sb_transactions_synced = 2,
              sb_transactions = [mapItem wellsFargo paychexItem, mapItem wellsFargo refundItem],
              sb_errors = None \<rparr>,
      [wellsFargo\<lparr> in_cursor := Some ''cursor-1'', in_last_synced := Some ''2025-02-01'' \<rparr>])
   \<and> plaidTransactions True onePage (\<lambda>d. 0) ''2025-02-01'' [wellsFargo] =
     Some (Json \<lparr> tb_transactions = [mapItem wellsFargo paychexItem, mapItem wellsFargo refundItem],
                   tb_count = Some 2, tb_errors = None, tb_message = None \<rparr>,
           [wellsFargo\<lparr> in_last_synced := Some ''2025-02-01'' \<rparr>])
   \<and> (\<exists>account \<in> set [wellsFargo]. \<exists>added cur. \<exists>t \<in> set (itemsOf added).
         syncOnce account = SyncData added cur \<and> notExcluded account t
         \<and> mapItem wellsFargo paychexItem = mapItem account t
         \<and> bt_amount (mapItem wellsFargo paychexItem) = px_amount t
         \<and> (bt_type (mapItem wellsFargo paychexItem) = ''expense'' \<longleftrightarrow> 0 < px_amount t)
         \<and> (bt_type (mapItem wellsFargo paychexItem) = ''income'' \<longleftrightarrow> px_amount t \<le> 0))
   \<and> (\<exists>account \<in> set [wellsFargo]. \<exists>k off txs tot. \<exists>t \<in> set (itemsOf txs).
         onePage account k off = GetData txs tot \<and> notExcluded account t
         \<and> mapItem wellsFargo refundItem = mapItem account t
         \<and> bt_amount (mapItem wellsFargo refundItem) = px_amount t
         \<and> (bt_type (mapItem wellsFargo refundItem) = ''expense'' \<longleftrightarrow> 0 < px_amount t)
         \<and> (bt_type (mapItem wellsFargo refundItem) = ''income'' \<longleftrightarrow> px_amount t \<le> 0))
   \<and> bt_amount (mapItem wellsFargo paychexItem) = 20545.04
   \<and> bt_type (mapItem wellsFargo paychexItem) = ''expense''
   \<and> bt_amount (mapItem wellsFargo refundItem) = - 12.5
   \<and> bt_type (mapItem wellsFargo refundItem) = ''income''"
proof -
  let ?p = "mapItem wellsFargo paychexItem" and ?r = "mapItem wellsFargo refundItem"
  note th = bank_feed_amounts_kept [where configured = True and accounts = "[wellsFargo]"
      and now = "''2025-02-01''" and sapi = syncOnce and gapi = onePage and dateValue = "\<lambda>d. 0"]
  note synced = th [THEN conjunct1, THEN mp, OF syncOnce_reply]
  note listed = th [THEN conjunct2, THEN mp, OF onePage_reply]
  have p: "?p \<in> set (sb_transactions
      \<lparr> sb_success = True, sb_transactions_synced = 2, sb_transactions = [?p, ?r],
        sb_errors = None \<rparr>)"
    by simp
  have r: "?r \<in> set (tb_transactions
      \<lparr> tb_transactions = [?p, ?r], tb_count = Some 2, tb_errors = None, tb_message = None \<rparr>)"
    by simp
  have v: "bt_amount ?p = 20545.04" "bt_type ?p = ''expense''"
    "bt_amount ?r = - 12.5" "bt_type ?r = ''income''"
    by (simp_all add: mapItem_def paychexItem_def refundItem_def)
  from syncOnce_reply onePage_reply synced [THEN bspec, OF p] listed [THEN bspec, OF r] v
  show ?thesis
    by (intro conjI)
qed

subsection \<open>The bank feed: the listing loop need not end\<close>

text \<open>
  When every page the feed delivers carries at least one transaction, the offset grows
  with each request and the loop returns, at the latest when the offset reaches 5000.
\<close>

lemma pageLoop_returns_on_progress:
  assumes progress: "\<And>k off txs tot. api k off = GetData txs tot \<Longrightarrow> itemsOf txs \<noteq> []"
  shows "\<exists>r. pageLoop account api n offset acc = Some r"
proof (induction "5000 - offset" arbitrary: n offset acc rule: less_induct)
  case less
  show ?case
  proof (cases "api n offset")
    case (GetThrows msg)
    then show ?thesis by (subst pageLoop.simps) simp
  next
    case (GetError msg)
    then show ?thesis by (subst pageLoop.simps) simp
  next
    case (GetData txs tot)
    from progress [OF this] have pos: "0 < length (itemsOf txs)"
      by simp
    show ?thesis
    proof (cases "5000 \<le> offset + length (itemsOf txs)")
      case True
      with GetData show ?thesis by (subst pageLoop.simps) (simp add: Let_def)
    next
      case False
      with pos have "5000 - (offset + length (itemsOf txs)) < 5000 - offset"
        by linarith
      from less [OF this, of "Suc n" "acc @ ingest account txs"]
      obtain r where "pageLoop account api (Suc n) (offset + length (itemsOf txs))
          (acc @ ingest account txs) = Some r"
        by blast
      with GetData False show ?thesis
        by (subst pageLoop.simps) (simp add: Let_def)
    qed
  qed
qed

lemma stuck_never_returns:
  assumes a: "pageLoop account api n offset acc = Some r"
  shows "\<not> (api = stuckFeed \<and> offset = 0)"
proof (rule pageLoop.raw_induct
    [where P = "\<lambda>account api n offset acc r. \<not> (api = stuckFeed \<and> offset = 0)", OF _ a],
    goal_cases)
  case (1 pl account api n offset acc r)
  show ?case
  proof
    assume s: "api = stuckFeed \<and> offset = 0"
    with 1(2) have "pl account stuckFeed (Suc n) 0 (acc @ ingest account (Some [])) = Some r"
      by (simp add: stuckFeed_def itemsOf_def Let_def)
    from 1(1) [OF this] show False by simp
  qed
qed

text \<open>
  C9 fails on the listing loop of GET /api/plaid/transactions. Against a feed that
  answers every request with no transactions and a total of 1, the offset stays 0,
  below both the reported total and the limit of 5000, so the loop asks again without
  end and the handler never answers. (The ledger loop \<open>fetchLoop\<close> does end for every
  ledger: it is a total function, its start position growing by a thousand per full
  page up to the bound of 10000.)
\<close>

theorem listing_loop_never_returns:
  "pageLoop account stuckFeed n 0 acc = None
   \<and> plaidTransactions True (\<lambda>a. stuckFeed) dateValue now [account] = None"
proof -
  have loop: "pageLoop account stuckFeed n 0 acc = None" for n acc
  proof (cases "pageLoop account stuckFeed n 0 acc")
    case None
    then show ?thesis .
  next
    case (Some r)
    from stuck_never_returns [OF this] show ?thesis by simp
  qed
  then show ?thesis
    by (simp add: plaidTransactions_def)
qed

end
